theory Spec2Isabelle
  imports Main "HOL-Library.Word"
begin

unbundle bit_operations_syntax

section \<open>Siemens MCOM FPGA watchdog driver (drivers/watchdog/mcom\_fpga.c)\<close>

subsection \<open>Machine integers and constants\<close>

type_synonym u8 = "8 word"
type_synonym u16 = "16 word"
type_synonym u32 = "32 word"

text \<open>
  C \<open>int\<close> and \<open>s32\<close>: 32 bits, read as two's complement by \<open>sint\<close> and compared
  with \<open><s\<close>. \<open>unsigned int\<close> is the same carrier read by \<open>unat\<close>.
\<close>

type_synonym s32 = "32 word"

definition WD_DIS_MASK :: s32 where "WD_DIS_MASK = 0x7F"
definition WD_MODE_MASK :: s32 where "WD_MODE_MASK = 0xF8"
definition WD_START_MODE :: u16 where "WD_START_MODE = 0x01"
definition WD_NORMAL_MODE :: u16 where "WD_NORMAL_MODE = 0x02"
definition WD_DOWN_MODE :: u16 where "WD_DOWN_MODE = 0x04"

definition WD_STATUS_CONTROLL :: u8 where "WD_STATUS_CONTROLL = 0x00"
definition WD_DISABLE_UBS :: u8 where "WD_DISABLE_UBS = 0x12"
definition WD_UPTIME :: u8 where "WD_UPTIME = 0x20"
definition WD_NORMALTIME :: u8 where "WD_NORMALTIME = 0x22"
definition WD_DOWNTIME :: u8 where "WD_DOWNTIME = 0x24"
definition WD_UBSTIME :: u8 where "WD_UBSTIME = 0x26"
definition WD_PEREPHERIE_RESET :: u8 where "WD_PEREPHERIE_RESET = 0x28"
definition WD_WINDOWTIME :: u8 where "WD_WINDOWTIME = 0x2C"
definition WD_KICK :: u8 where "WD_KICK = 0x2E"
definition WD_TEMP :: u8 where "WD_TEMP = 0x50"
definition WD_MVB_STATUS :: u8 where "WD_MVB_STATUS = 0x90"
definition WD_MVB_CTRL :: u8 where "WD_MVB_CTRL = 0x92"

subsection \<open>The register bus\<close>

text \<open>
  The SMBus primitives \<open>i2c_smbus_read_word_data\<close>, \<open>i2c_smbus_write_word_data\<close> and
  \<open>i2c_smbus_write_byte_data\<close> belong to the I2C core, which is not part of the driver
  file. They are modelled as a scripted bus: a register file, the outcomes of the coming
  transactions, and the log of the transactions attempted so far.
\<close>

datatype errno =
  EIO | ENXIO | EAGAIN | ENOMEM | EBUSY | ENODEV | EINVAL | EPROTO | EBADMSG
  | EOPNOTSUPP | ESHUTDOWN | ETIMEDOUT

fun errno_num :: "errno \<Rightarrow> s32" where
  "errno_num EIO = 5"
| "errno_num ENXIO = 6"
| "errno_num EAGAIN = 11"
| "errno_num ENOMEM = 12"
| "errno_num EBUSY = 16"
| "errno_num ENODEV = 19"
| "errno_num EINVAL = 22"
| "errno_num EPROTO = 71"
| "errno_num EBADMSG = 74"
| "errno_num EOPNOTSUPP = 95"
| "errno_num ESHUTDOWN = 108"
| "errno_num ETIMEDOUT = 110"

text \<open>The value a kernel function returns for a failure: \<open>-EIO\<close> and so on.\<close>

definition neg_errno :: "errno \<Rightarrow> s32" where
  "neg_errno e = - errno_num e"

datatype outcome = Ack | Nak errno

datatype bus_op = BusRead u8 | BusWrite u8 u16 | BusWriteByte u8 u8

record bus =
  regs :: "u8 \<Rightarrow> u16"
  bregs :: "u8 \<Rightarrow> u8"
  script :: "outcome list"
  trace :: "bus_op list"

text \<open>
  Modelled from the spec: the register bus adapter, \<open>readWord(addr: u8) -> Result<u16,
  BusError>\<close> and \<open>writeWord(addr: u8, value: u16) -> Result<(), BusError>\<close>: "perform
  exactly one bus transaction and return success or a transport-level error". Every call
  consumes one outcome of the script (an exhausted script acknowledges) and appends the
  transaction to the trace, whether it fails or not. A read returns the word zero-extended
  to \<open>s32\<close>, or a negative errno; a write returns 0, or a negative errno and leaves the
  register as it was.
\<close>

definition next_outcome :: "bus \<Rightarrow> outcome" where
  "next_outcome b = (case script b of [] \<Rightarrow> Ack | x # _ \<Rightarrow> x)"

definition advance :: "bus_op \<Rightarrow> bus \<Rightarrow> bus" where
  "advance op b = b\<lparr>script := tl (script b), trace := trace b @ [op]\<rparr>"

definition i2c_smbus_read_word_data :: "bus \<Rightarrow> u8 \<Rightarrow> s32 \<times> bus" where
  "i2c_smbus_read_word_data b reg =
     (case next_outcome b of
        Nak e \<Rightarrow> (neg_errno e, advance (BusRead reg) b)
      | Ack \<Rightarrow> (ucast (regs b reg), advance (BusRead reg) b))"

definition i2c_smbus_write_word_data :: "bus \<Rightarrow> u8 \<Rightarrow> u16 \<Rightarrow> s32 \<times> bus" where
  "i2c_smbus_write_word_data b reg v =
     (case next_outcome b of
        Nak e \<Rightarrow> (neg_errno e, advance (BusWrite reg v) b)
      | Ack \<Rightarrow> (0, advance (BusWrite reg v) (b\<lparr>regs := (regs b)(reg := v)\<rparr>)))"

definition i2c_smbus_write_byte_data :: "bus \<Rightarrow> u8 \<Rightarrow> u8 \<Rightarrow> s32 \<times> bus" where
  "i2c_smbus_write_byte_data b reg v =
     (case next_outcome b of
        Nak e \<Rightarrow> (neg_errno e, advance (BusWriteByte reg v) b)
      | Ack \<Rightarrow> (0, advance (BusWriteByte reg v) (b\<lparr>bregs := (bregs b)(reg := v)\<rparr>)))"

subsection \<open>Watchdog operations\<close>

text \<open>
  \<open>struct watchdog_device\<close>: of its fields the driver reads and writes only \<open>timeout\<close>;
  \<open>parent\<close> leads to the I2C client, which is the bus passed to every function here.
\<close>

record watchdog_device =
  timeout :: u32

text \<open>\<open>kick_wdt\<close>: low, high, low on the kick register, returning at the first failure.\<close>

definition kick_wdt :: "bus \<Rightarrow> s32 \<times> bus" where
  "kick_wdt client =
     (let (err, b1) = i2c_smbus_write_word_data client WD_KICK 0x0000 in
      if err \<noteq> 0 then (err, b1)
      else
        let (err, b2) = i2c_smbus_write_word_data b1 WD_KICK 0x0100 in
        if err \<noteq> 0 then (err, b2)
        else
          let (err, b3) = i2c_smbus_write_word_data b2 WD_KICK 0x0000 in
          if err \<noteq> 0 then (err, b3)
          else (0, b3))"

text \<open>
  \<open>mcom_fpga_set_mode\<close>: \<open>err\<close> is an \<open>s32\<close>; \<open>mode\<close> (a \<open>u16\<close>) is promoted to
  \<open>int\<close> for the OR, and the result is converted to the \<open>u16\<close> parameter of the write.
\<close>

definition mcom_fpga_set_mode :: "bus \<Rightarrow> u16 \<Rightarrow> s32 \<times> bus" where
  "mcom_fpga_set_mode client mode =
     (let (err, b1) = i2c_smbus_read_word_data client WD_STATUS_CONTROLL in
      if err <s 0 then (err, b1)
      else
        let err = (err AND WD_DIS_MASK AND WD_MODE_MASK) OR ucast mode in
        i2c_smbus_write_word_data b1 WD_STATUS_CONTROLL (ucast err))"

definition mcom_fpga_start :: "bus \<Rightarrow> s32 \<times> bus" where
  "mcom_fpga_start client = mcom_fpga_set_mode client WD_START_MODE"

definition mcom_fpga_stop :: "bus \<Rightarrow> s32 \<times> bus" where
  "mcom_fpga_stop client = mcom_fpga_set_mode client WD_DOWN_MODE"

definition mcom_fpga_ping :: "bus \<Rightarrow> s32 \<times> bus" where
  "mcom_fpga_ping client = kick_wdt client"

text \<open>
  \<open>mcom_fpga_set_timeout\<close>: the \<open>unsigned int\<close> argument is converted to the \<open>u16\<close>
  parameter of the write; \<open>wdd->timeout\<close> is assigned when the write returned 0.
\<close>

definition mcom_fpga_set_timeout ::
  "watchdog_device \<Rightarrow> bus \<Rightarrow> u32 \<Rightarrow> s32 \<times> watchdog_device \<times> bus" where
  "mcom_fpga_set_timeout wdd client t =
     (let (ret, b1) = i2c_smbus_write_word_data client WD_UPTIME (ucast t) in
      if ret = 0 then (ret, wdd\<lparr>timeout := t\<rparr>, b1)
      else (ret, wdd, b1))"

subsection \<open>Probe\<close>

text \<open>
  Modelled from the spec: \<open>watchdog_init_timeout\<close> belongs to the watchdog core, which is
  not part of the driver file. The spec has "a single optional startup timeout override,
  in seconds, consumed only at attach time" and calls the timeout "unset (zero)" without
  it: a nonzero parameter becomes \<open>wdd->timeout\<close>, zero leaves the field as it is.
\<close>

definition watchdog_init_timeout :: "watchdog_device \<Rightarrow> u32 \<Rightarrow> watchdog_device" where
  "watchdog_init_timeout wdd timeout_parm =
     (if timeout_parm \<noteq> 0 then wdd\<lparr>timeout := timeout_parm\<rparr> else wdd)"

text \<open>
  What \<open>mcom_fpga_probe\<close> takes from the kernel besides the bus: the answer of
  \<open>i2c_check_functionality\<close>, \<open>client->addr\<close>, whether \<open>devm_kzalloc\<close> returned memory,
  the module parameter \<open>wdt_timeout\<close>, and what \<open>watchdog_register_device\<close> returns
  once it is called.
\<close>

record probe_env =
  functionality :: bool
  addr :: u16
  kzalloc_ok :: bool
  wdt_timeout :: s32
  register_ret :: s32

text \<open>
  What the probe leaves behind: its return value, the allocated \<open>data->wdd\<close> (if any),
  whether \<open>watchdog_register_device\<close> was reached, and the bus.
\<close>

record probe_result =
  ret :: s32
  data :: "watchdog_device option"
  register_called :: bool
  bus_after :: bus

text \<open>
  The second half of \<open>mcom_fpga_probe\<close>, from the call of \<open>mcom_fpga_set_timeout\<close> on.
  The driver's global \<open>mcom_fpga_client\<close> is the client of the one device, so the byte
  write goes to the same bus.
\<close>

definition probe_configure :: "probe_env \<Rightarrow> watchdog_device \<Rightarrow> bus \<Rightarrow> probe_result" where
  "probe_configure env wdd client =
     (let (r, wdd1, b1) = mcom_fpga_set_timeout wdd client (timeout wdd) in
      if r \<noteq> 0
      then \<lparr>ret = r, data = Some wdd1, register_called = False, bus_after = b1\<rparr>
      else
        let (r, b2) = i2c_smbus_write_byte_data b1 0x06 0x00 in
        if r \<noteq> 0
        then \<lparr>ret = r, data = Some wdd1, register_called = False, bus_after = b2\<rparr>
        else \<lparr>ret = register_ret env, data = Some wdd1, register_called = True,
               bus_after = b2\<rparr>)"

definition mcom_fpga_probe :: "probe_env \<Rightarrow> bus \<Rightarrow> probe_result" where
  "mcom_fpga_probe env client =
     (if \<not> functionality env
      then \<lparr>ret = neg_errno ENODEV, data = None, register_called = False,
             bus_after = client\<rparr>
      else if addr env \<noteq> 0x3c
      then \<lparr>ret = neg_errno ENODEV, data = None, register_called = False,
             bus_after = client\<rparr>
      else if \<not> kzalloc_ok env
      then \<lparr>ret = neg_errno ENOMEM, data = None, register_called = False,
             bus_after = client\<rparr>
      else
        let wdd = watchdog_init_timeout \<lparr>timeout = 0\<rparr> (wdt_timeout env) in
        if timeout wdd = 0
        then
          let (val, b1) = i2c_smbus_read_word_data client WD_UPTIME in
          if val <s 0
          then \<lparr>ret = val, data = Some wdd, register_called = False, bus_after = b1\<rparr>
          else probe_configure env (wdd\<lparr>timeout := val\<rparr>) b1
        else probe_configure env wdd client)"

subsection \<open>Sysfs attributes\<close>

text \<open>
  A show function either returns the negative value of the read, or emits the word with
  \<open>sysfs_emit(buf, "0x%04x\n", err)\<close>. All ten show functions have this body and differ
  in the register only.
\<close>

datatype show_result = ShowErr s32 | ShowEmit s32

definition show_word :: "u8 \<Rightarrow> bus \<Rightarrow> show_result \<times> bus" where
  "show_word reg client =
     (let (err, b1) = i2c_smbus_read_word_data client reg in
      if err <s 0 then (ShowErr err, b1) else (ShowEmit err, b1))"

text \<open>
  \<open>mcom_fpga_store_word\<close>: \<open>kstrtou16_from_user\<close> is a kernel library function; its
  outcome on the user's buffer (error code and parsed word) is the argument \<open>parsed\<close>.
  The return value is an \<open>ssize_t\<close>: the sign-extended error, or \<open>count\<close>.
\<close>

type_synonym ssize_t = "64 word"

definition mcom_fpga_store_word :: "s32 \<times> u16 \<Rightarrow> ssize_t \<Rightarrow> u8 \<Rightarrow> bus \<Rightarrow> ssize_t \<times> bus" where
  "mcom_fpga_store_word parsed count reg client =
     (let (err, result) = parsed in
      if err \<noteq> 0 then (scast err, client)
      else
        let (err, b1) = i2c_smbus_write_word_data client reg result in
        if err \<noteq> 0 then (scast err, b1)
        else (count, b1))"

definition status_controll_show :: "bus \<Rightarrow> show_result \<times> bus" where
  "status_controll_show = show_word WD_STATUS_CONTROLL"

definition status_controll_store :: "s32 \<times> u16 \<Rightarrow> ssize_t \<Rightarrow> bus \<Rightarrow> ssize_t \<times> bus" where
  "status_controll_store buf count = mcom_fpga_store_word buf count WD_STATUS_CONTROLL"

definition disable_ubs_show :: "bus \<Rightarrow> show_result \<times> bus" where
  "disable_ubs_show = show_word WD_DISABLE_UBS"

definition disable_ubs_store :: "s32 \<times> u16 \<Rightarrow> ssize_t \<Rightarrow> bus \<Rightarrow> ssize_t \<times> bus" where
  "disable_ubs_store buf count = mcom_fpga_store_word buf count WD_DISABLE_UBS"

definition uptime_show :: "bus \<Rightarrow> show_result \<times> bus" where
  "uptime_show = show_word WD_UPTIME"

definition uptime_store :: "s32 \<times> u16 \<Rightarrow> ssize_t \<Rightarrow> bus \<Rightarrow> ssize_t \<times> bus" where
  "uptime_store buf count = mcom_fpga_store_word buf count WD_UPTIME"

definition normaltime_show :: "bus \<Rightarrow> show_result \<times> bus" where
  "normaltime_show = show_word WD_NORMALTIME"

definition normaltime_store :: "s32 \<times> u16 \<Rightarrow> ssize_t \<Rightarrow> bus \<Rightarrow> ssize_t \<times> bus" where
  "normaltime_store buf count = mcom_fpga_store_word buf count WD_NORMALTIME"

definition downtime_show :: "bus \<Rightarrow> show_result \<times> bus" where
  "downtime_show = show_word WD_DOWNTIME"

definition downtime_store :: "s32 \<times> u16 \<Rightarrow> ssize_t \<Rightarrow> bus \<Rightarrow> ssize_t \<times> bus" where
  "downtime_store buf count = mcom_fpga_store_word buf count WD_DOWNTIME"

definition ubstime_show :: "bus \<Rightarrow> show_result \<times> bus" where
  "ubstime_show = show_word WD_UBSTIME"

definition ubstime_store :: "s32 \<times> u16 \<Rightarrow> ssize_t \<Rightarrow> bus \<Rightarrow> ssize_t \<times> bus" where
  "ubstime_store buf count = mcom_fpga_store_word buf count WD_UBSTIME"

definition perepherie_reset_store :: "s32 \<times> u16 \<Rightarrow> ssize_t \<Rightarrow> bus \<Rightarrow> ssize_t \<times> bus" where
  "perepherie_reset_store buf count = mcom_fpga_store_word buf count WD_PEREPHERIE_RESET"

definition windowtime_show :: "bus \<Rightarrow> show_result \<times> bus" where
  "windowtime_show = show_word WD_WINDOWTIME"

definition windowtime_store :: "s32 \<times> u16 \<Rightarrow> ssize_t \<Rightarrow> bus \<Rightarrow> ssize_t \<times> bus" where
  "windowtime_store buf count = mcom_fpga_store_word buf count WD_WINDOWTIME"

definition temperature_show :: "bus \<Rightarrow> show_result \<times> bus" where
  "temperature_show = show_word WD_TEMP"

definition mvb_status_show :: "bus \<Rightarrow> show_result \<times> bus" where
  "mvb_status_show = show_word WD_MVB_STATUS"

definition mvb_ctrl_show :: "bus \<Rightarrow> show_result \<times> bus" where
  "mvb_ctrl_show = show_word WD_MVB_CTRL"

definition mvb_ctrl_store :: "s32 \<times> u16 \<Rightarrow> ssize_t \<Rightarrow> bus \<Rightarrow> ssize_t \<times> bus" where
  "mvb_ctrl_store buf count = mcom_fpga_store_word buf count WD_MVB_CTRL"

text \<open>
  Modelled from the spec: the macros \<open>DEVICE_ATTR_RW\<close>, \<open>DEVICE_ATTR_RO\<close> and
  \<open>DEVICE_ATTR_WO\<close> come from the driver core's headers, which are not part of the driver
  file. The spec has "each such accessor's access mode (read-write, read-only,
  write-only) is fixed per register": \<open>DEVICE_ATTR_RW(n)\<close> makes an attribute from
  \<open>n_show\<close> and \<open>n_store\<close>, \<open>DEVICE_ATTR_RO(n)\<close> one from \<open>n_show\<close> with no store
  handler, \<open>DEVICE_ATTR_WO(n)\<close> one from \<open>n_store\<close> with no show handler.
\<close>

record device_attribute =
  attr_name :: string
  attr_show :: "(bus \<Rightarrow> show_result \<times> bus) option"
  attr_store :: "(s32 \<times> u16 \<Rightarrow> ssize_t \<Rightarrow> bus \<Rightarrow> ssize_t \<times> bus) option"

definition DEVICE_ATTR_RW ::
  "string \<Rightarrow> (bus \<Rightarrow> show_result \<times> bus) \<Rightarrow>
   (s32 \<times> u16 \<Rightarrow> ssize_t \<Rightarrow> bus \<Rightarrow> ssize_t \<times> bus) \<Rightarrow> device_attribute" where
  "DEVICE_ATTR_RW n sh st = \<lparr>attr_name = n, attr_show = Some sh, attr_store = Some st\<rparr>"

definition DEVICE_ATTR_RO :: "string \<Rightarrow> (bus \<Rightarrow> show_result \<times> bus) \<Rightarrow> device_attribute" where
  "DEVICE_ATTR_RO n sh = \<lparr>attr_name = n, attr_show = Some sh, attr_store = None\<rparr>"

definition DEVICE_ATTR_WO ::
  "string \<Rightarrow> (s32 \<times> u16 \<Rightarrow> ssize_t \<Rightarrow> bus \<Rightarrow> ssize_t \<times> bus) \<Rightarrow> device_attribute" where
  "DEVICE_ATTR_WO n st = \<lparr>attr_name = n, attr_show = None, attr_store = Some st\<rparr>"

definition dev_attr_status_controll :: device_attribute where
  "dev_attr_status_controll =
     DEVICE_ATTR_RW ''status_controll'' status_controll_show status_controll_store"

definition dev_attr_disable_ubs :: device_attribute where
  "dev_attr_disable_ubs = DEVICE_ATTR_RW ''disable_ubs'' disable_ubs_show disable_ubs_store"

definition dev_attr_uptime :: device_attribute where
  "dev_attr_uptime = DEVICE_ATTR_RW ''uptime'' uptime_show uptime_store"

definition dev_attr_normaltime :: device_attribute where
  "dev_attr_normaltime = DEVICE_ATTR_RW ''normaltime'' normaltime_show normaltime_store"

definition dev_attr_downtime :: device_attribute where
  "dev_attr_downtime = DEVICE_ATTR_RW ''downtime'' downtime_show downtime_store"

definition dev_attr_ubstime :: device_attribute where
  "dev_attr_ubstime = DEVICE_ATTR_RW ''ubstime'' ubstime_show ubstime_store"

definition dev_attr_perepherie_reset :: device_attribute where
  "dev_attr_perepherie_reset = DEVICE_ATTR_WO ''perepherie_reset'' perepherie_reset_store"

definition dev_attr_windowtime :: device_attribute where
  "dev_attr_windowtime = DEVICE_ATTR_RW ''windowtime'' windowtime_show windowtime_store"

definition dev_attr_temperature :: device_attribute where
  "dev_attr_temperature = DEVICE_ATTR_RO ''temperature'' temperature_show"

definition dev_attr_mvb_status :: device_attribute where
  "dev_attr_mvb_status = DEVICE_ATTR_RO ''mvb_status'' mvb_status_show"

definition dev_attr_mvb_ctrl :: device_attribute where
  "dev_attr_mvb_ctrl = DEVICE_ATTR_RW ''mvb_ctrl'' mvb_ctrl_show mvb_ctrl_store"

definition mcom_fpga_attrs :: "device_attribute list" where
  "mcom_fpga_attrs =
     [dev_attr_status_controll, dev_attr_disable_ubs, dev_attr_uptime,
      dev_attr_normaltime, dev_attr_downtime, dev_attr_ubstime,
      dev_attr_perepherie_reset, dev_attr_windowtime, dev_attr_temperature,
      dev_attr_mvb_status, dev_attr_mvb_ctrl]"

text \<open>
  Modelled from the spec: the dispatch of a read or a write of an attribute is done by the
  driver core, which is not part of the driver file. The spec has \<open>readRegister(name)\<close>
  and \<open>writeRegister(name, value)\<close>, "mode-checked", where an access in a direction the
  register does not have is "rejected with \<open>ProtocolViolation\<close> without reaching the bus":
  an attribute without the handler rejects, one with it runs the handler.
\<close>

datatype 'a access = ProtocolViolation | Handled 'a

definition readRegister :: "device_attribute \<Rightarrow> bus \<Rightarrow> show_result access \<times> bus" where
  "readRegister a client =
     (case attr_show a of
        None \<Rightarrow> (ProtocolViolation, client)
      | Some sh \<Rightarrow> (let (r, b1) = sh client in (Handled r, b1)))"

definition writeRegister ::
  "device_attribute \<Rightarrow> s32 \<times> u16 \<Rightarrow> ssize_t \<Rightarrow> bus \<Rightarrow> ssize_t access \<times> bus" where
  "writeRegister a buf count client =
     (case attr_store a of
        None \<Rightarrow> (ProtocolViolation, client)
      | Some st \<Rightarrow> (let (r, b1) = st buf count client in (Handled r, b1)))"

subsection \<open>Test fixtures\<close>

text \<open>
  A bus whose registers all read zero, with an empty script (every transaction is
  acknowledged) and an empty trace; and the same bus with one register and a script set.
\<close>

definition idle_bus :: bus where
  "idle_bus = \<lparr>regs = (\<lambda>_. 0), bregs = (\<lambda>_. 0), script = [], trace = []\<rparr>"

definition mock_bus :: "u8 \<Rightarrow> u16 \<Rightarrow> outcome list \<Rightarrow> bus" where
  "mock_bus reg v outcomes = idle_bus\<lparr>regs := (regs idle_bus)(reg := v), script := outcomes\<rparr>"

text \<open>The outcome of the \<open>i\<close>-th coming transaction of a bus (0 is the next one).\<close>

definition upcoming :: "bus \<Rightarrow> nat \<Rightarrow> outcome" where
  "upcoming b i = (if i < length (script b) then script b ! i else Ack)"

text \<open>A device the probe accepts, with a module parameter and a registration result.\<close>

definition matching_env :: "s32 \<Rightarrow> s32 \<Rightarrow> probe_env" where
  "matching_env parm reg_ret =
     \<lparr>functionality = True, addr = 0x3c, kzalloc_ok = True, wdt_timeout = parm,
      register_ret = reg_ret\<rparr>"

section \<open>Properties\<close>

subsection \<open>The bus and the return values\<close>

lemma neg_errno_neg: "neg_errno e <s 0"
  by (cases e) (simp_all add: neg_errno_def word_sless_alt)

lemma neg_errno_nz: "neg_errno e \<noteq> 0"
  by (cases e) (simp_all add: neg_errno_def)

lemma ucast_not_neg: "\<not> ((ucast (v::u16) :: s32) <s 0)"
proof -
  have "uint v < 2 ^ 16" using uint_bounded [of v] by simp
  moreover have "0 \<le> uint v" by simp
  ultimately have "sint (ucast v :: s32) = uint v"
    by (simp add: sint_uint signed_take_bit_eq_take_bit_shift unsigned_ucast_eq take_bit_eq_mod)
  then show ?thesis by (simp add: word_sless_alt)
qed

lemma next_outcome_upcoming: "next_outcome b = upcoming b 0"
  by (cases "script b") (simp_all add: next_outcome_def upcoming_def)

lemma upcoming_advance: "upcoming (advance op b) i = upcoming b (Suc i)"
  by (cases "script b") (simp_all add: upcoming_def advance_def)

lemma upcoming_regs_update: "upcoming (b\<lparr>regs := f\<rparr>) i = upcoming b i"
  by (simp add: upcoming_def)

lemma upcoming_bregs_update: "upcoming (b\<lparr>bregs := f\<rparr>) i = upcoming b i"
  by (simp add: upcoming_def)

lemma regs_advance: "regs (advance op b) = regs b"
  by (simp add: advance_def)

lemma trace_advance: "trace (advance op b) = trace b @ [op]"
  by (simp add: advance_def)

lemma read_word_Ack:
  "upcoming b 0 = Ack \<Longrightarrow>
   i2c_smbus_read_word_data b reg = (ucast (regs b reg), advance (BusRead reg) b)"
  by (simp add: i2c_smbus_read_word_data_def next_outcome_upcoming)

lemma read_word_Nak:
  "upcoming b 0 = Nak e \<Longrightarrow>
   i2c_smbus_read_word_data b reg = (neg_errno e, advance (BusRead reg) b)"
  by (simp add: i2c_smbus_read_word_data_def next_outcome_upcoming)

lemma write_word_Ack:
  "upcoming b 0 = Ack \<Longrightarrow>
   i2c_smbus_write_word_data b reg v =
     (0, advance (BusWrite reg v) (b\<lparr>regs := (regs b)(reg := v)\<rparr>))"
  by (simp add: i2c_smbus_write_word_data_def next_outcome_upcoming)

lemma write_word_Nak:
  "upcoming b 0 = Nak e \<Longrightarrow>
   i2c_smbus_write_word_data b reg v = (neg_errno e, advance (BusWrite reg v) b)"
  by (simp add: i2c_smbus_write_word_data_def next_outcome_upcoming)

lemma write_byte_Ack:
  "upcoming b 0 = Ack \<Longrightarrow>
   i2c_smbus_write_byte_data b reg v =
     (0, advance (BusWriteByte reg v) (b\<lparr>bregs := (bregs b)(reg := v)\<rparr>))"
  by (simp add: i2c_smbus_write_byte_data_def next_outcome_upcoming)

lemma write_byte_Nak:
  "upcoming b 0 = Nak e \<Longrightarrow>
   i2c_smbus_write_byte_data b reg v = (neg_errno e, advance (BusWriteByte reg v) b)"
  by (simp add: i2c_smbus_write_byte_data_def next_outcome_upcoming)

lemma write_word_zero_iff:
  "fst (i2c_smbus_write_word_data b reg v) = 0 \<longleftrightarrow> upcoming b 0 = Ack"
  by (cases "upcoming b 0") (simp_all add: write_word_Ack write_word_Nak neg_errno_nz)

lemma mode_value:
  "(ucast (((ucast (v::u16) :: s32) AND WD_DIS_MASK AND WD_MODE_MASK) OR ucast (m::u16)) :: u16)
     = (v AND 0x78) OR m"
  unfolding WD_DIS_MASK_def WD_MODE_MASK_def
  by (rule bit_word_eqI) (auto simp add: bit_simps)

lemma set_mode_read_Nak:
  "upcoming b 0 = Nak e \<Longrightarrow>
   mcom_fpga_set_mode b m = (neg_errno e, advance (BusRead WD_STATUS_CONTROLL) b)"
  by (simp add: mcom_fpga_set_mode_def read_word_Nak neg_errno_neg)

lemma set_mode_read_Ack:
  "upcoming b 0 = Ack \<Longrightarrow>
   mcom_fpga_set_mode b m =
     i2c_smbus_write_word_data (advance (BusRead WD_STATUS_CONTROLL) b) WD_STATUS_CONTROLL
       ((regs b WD_STATUS_CONTROLL AND 0x78) OR m)"
  by (simp add: mcom_fpga_set_mode_def read_word_Ack ucast_not_neg mode_value)

lemma set_mode_success:
  assumes "mcom_fpga_set_mode b m = (0, b')"
  shows "upcoming b 0 = Ack" and "upcoming b 1 = Ack"
    and "regs b' = (regs b)(WD_STATUS_CONTROLL := (regs b WD_STATUS_CONTROLL AND 0x78) OR m)"
    and "trace b' = trace b @ [BusRead WD_STATUS_CONTROLL,
           BusWrite WD_STATUS_CONTROLL ((regs b WD_STATUS_CONTROLL AND 0x78) OR m)]"
proof -
  show r: "upcoming b 0 = Ack"
  proof (cases "upcoming b 0")
    case (Nak e)
    with assms show ?thesis by (simp add: set_mode_read_Nak neg_errno_nz)
  qed simp
  let ?b1 = "advance (BusRead WD_STATUS_CONTROLL) b"
  let ?v = "(regs b WD_STATUS_CONTROLL AND 0x78) OR m"
  from assms r have w: "i2c_smbus_write_word_data ?b1 WD_STATUS_CONTROLL ?v = (0, b')"
    by (simp add: set_mode_read_Ack)
  then have "upcoming ?b1 0 = Ack"
    using write_word_zero_iff [of ?b1 WD_STATUS_CONTROLL ?v] by simp
  then show a: "upcoming b 1 = Ack" by (simp add: upcoming_advance)
  then have "upcoming ?b1 0 = Ack" by (simp add: upcoming_advance)
  with w have b': "b' = advance (BusWrite WD_STATUS_CONTROLL ?v)
      (?b1\<lparr>regs := (regs ?b1)(WD_STATUS_CONTROLL := ?v)\<rparr>)"
    by (simp add: write_word_Ack)
  show "regs b' = (regs b)(WD_STATUS_CONTROLL := ?v)"
    by (simp add: b' regs_advance)
  show "trace b' = trace b @ [BusRead WD_STATUS_CONTROLL, BusWrite WD_STATUS_CONTROLL ?v]"
    by (simp add: b' advance_def)
qed

lemmas bus_eval =
  i2c_smbus_read_word_data_def i2c_smbus_write_word_data_def i2c_smbus_write_byte_data_def
  next_outcome_def advance_def mock_bus_def idle_bus_def neg_errno_def upcoming_def

lemmas reg_eval =
  WD_STATUS_CONTROLL_def WD_UPTIME_def WD_KICK_def WD_DIS_MASK_def WD_MODE_MASK_def
  WD_START_MODE_def WD_NORMAL_MODE_def WD_DOWN_MODE_def

subsection \<open>Setting the mode\<close>

text \<open>
  Claim C1, as amended. For every canonical mode \<open>m\<close> (start 0x01, normal 0x02, down 0x04)
  and every prior value \<open>v\<close> of the status/control register, a call of
  \<open>mcom_fpga_set_mode\<close> that returns 0 leaves the register at \<open>(v AND 0x78) OR m\<close>: its
  low three bits are \<open>m\<close>, its bits 3 to 6 are those of \<open>v\<close>, and its low seven bits
  (mask 0x7F) are \<open>(v AND 0x78) OR m\<close>, so bits 0 to 2 of \<open>v\<close> are replaced by the mode
  and not kept.
\<close>

theorem set_mode_canonical_result:
  assumes "m \<in> {WD_START_MODE, WD_NORMAL_MODE, WD_DOWN_MODE}"
    and "mcom_fpga_set_mode b m = (0, b')"
  shows "regs b' WD_STATUS_CONTROLL AND 0x07 = m
       \<and> regs b' WD_STATUS_CONTROLL AND 0x78 = regs b WD_STATUS_CONTROLL AND 0x78
       \<and> regs b' WD_STATUS_CONTROLL AND 0x7F = (regs b WD_STATUS_CONTROLL AND 0x78) OR m
       \<and> regs b' WD_STATUS_CONTROLL = (regs b WD_STATUS_CONTROLL AND 0x78) OR m"
proof -
  let ?v = "regs b WD_STATUS_CONTROLL"
  have new: "regs b' WD_STATUS_CONTROLL = (?v AND 0x78) OR m"
    using set_mode_success(3) [OF assms(2)] by simp
  have m7: "m AND 0x07 = m" and m78: "m AND 0x78 = 0" and m7F: "m AND 0x7F = m"
    using assms(1) by (auto simp add: WD_START_MODE_def WD_NORMAL_MODE_def WD_DOWN_MODE_def)
  have "((?v AND 0x78) OR m) AND 0x07 = m AND 0x07"
    by (simp add: bit.conj_disj_distrib2 and.assoc)
  moreover have "((?v AND 0x78) OR m) AND 0x78 = (?v AND 0x78) OR (m AND 0x78)"
    by (simp add: bit.conj_disj_distrib2 and.assoc)
  moreover have "((?v AND 0x78) OR m) AND 0x7F = (?v AND 0x78) OR (m AND 0x7F)"
    by (simp add: bit.conj_disj_distrib2 and.assoc)
  ultimately show ?thesis using new m7 m78 m7F by simp
qed

theorem set_mode_canonical_result_witness:
  "WD_NORMAL_MODE \<in> {WD_START_MODE, WD_NORMAL_MODE, WD_DOWN_MODE}
   \<and> mcom_fpga_set_mode (mock_bus WD_STATUS_CONTROLL 0xABFD []) WD_NORMAL_MODE
       = (0, snd (mcom_fpga_set_mode (mock_bus WD_STATUS_CONTROLL 0xABFD []) WD_NORMAL_MODE))
   \<and> regs (snd (mcom_fpga_set_mode (mock_bus WD_STATUS_CONTROLL 0xABFD []) WD_NORMAL_MODE))
        WD_STATUS_CONTROLL = 0x7A
   \<and> regs (snd (mcom_fpga_set_mode (mock_bus WD_STATUS_CONTROLL 0xABFD []) WD_NORMAL_MODE))
        WD_STATUS_CONTROLL AND 0x07 = WD_NORMAL_MODE"
proof -
  let ?b = "mock_bus WD_STATUS_CONTROLL 0xABFD []"
  have m: "WD_NORMAL_MODE \<in> {WD_START_MODE, WD_NORMAL_MODE, WD_DOWN_MODE}" by simp
  have "fst (mcom_fpga_set_mode ?b WD_NORMAL_MODE) = 0"
    by (simp add: mcom_fpga_set_mode_def bus_eval reg_eval word_sless_alt)
  then have ok: "mcom_fpga_set_mode ?b WD_NORMAL_MODE
      = (0, snd (mcom_fpga_set_mode ?b WD_NORMAL_MODE))"
    by (metis prod.collapse)
  have v: "regs ?b WD_STATUS_CONTROLL = 0xABFD" by (simp add: bus_eval)
  show ?thesis
    using set_mode_canonical_result [OF m ok] m ok by (simp add: v) (simp add: reg_eval)
qed

text \<open>
  The low seven bits are not the same before and after: from the value 0x0002 (normal mode)
  a successful change to start mode leaves 0x0001.
\<close>

theorem set_mode_disable_bits_counterexample:
  "fst (mcom_fpga_set_mode (mock_bus WD_STATUS_CONTROLL 0x0002 []) WD_START_MODE) = 0 \<and>
   regs (snd (mcom_fpga_set_mode (mock_bus WD_STATUS_CONTROLL 0x0002 []) WD_START_MODE))
      WD_STATUS_CONTROLL AND 0x7F
     \<noteq> regs (mock_bus WD_STATUS_CONTROLL 0x0002 []) WD_STATUS_CONTROLL AND 0x7F"
  by (simp add: mcom_fpga_set_mode_def bus_eval reg_eval word_sless_alt)

subsection \<open>The kick sequence\<close>

lemma kick_first_Nak:
  "upcoming b 0 = Nak e \<Longrightarrow>
   kick_wdt b = (neg_errno e, advance (BusWrite WD_KICK 0x0000) b)"
  by (simp add: kick_wdt_def write_word_Nak neg_errno_nz)

lemma kick_second_Nak:
  "upcoming b 0 = Ack \<Longrightarrow> upcoming b 1 = Nak e \<Longrightarrow>
   fst (kick_wdt b) = neg_errno e \<and>
   trace (snd (kick_wdt b)) = trace b @ [BusWrite WD_KICK 0x0000, BusWrite WD_KICK 0x0100] \<and>
   regs (snd (kick_wdt b)) = (regs b)(WD_KICK := 0x0000)"
  by (simp add: kick_wdt_def write_word_Ack write_word_Nak neg_errno_nz upcoming_advance
      upcoming_regs_update trace_advance regs_advance)

lemma kick_third:
  "upcoming b 0 = Ack \<Longrightarrow> upcoming b 1 = Ack \<Longrightarrow>
   fst (kick_wdt b) = (case upcoming b 2 of Ack \<Rightarrow> 0 | Nak e \<Rightarrow> neg_errno e) \<and>
   trace (snd (kick_wdt b)) =
     trace b @ [BusWrite WD_KICK 0x0000, BusWrite WD_KICK 0x0100, BusWrite WD_KICK 0x0000]"
  by (cases "upcoming b 2")
     (simp_all add: kick_wdt_def write_word_Ack write_word_Nak neg_errno_nz upcoming_advance
      upcoming_regs_update trace_advance regs_advance numeral_2_eq_2)

text \<open>
  Claim C2. \<open>mcom_fpga_ping\<close> (which is \<open>kick_wdt\<close>) issues three writes to the kick
  register, 0x0000, 0x0100, 0x0000 in this order, and returns 0 when all three are
  acknowledged. When a write fails, its error is returned and no later write is
  attempted: a failure of the first write leaves one write in the trace, a failure of the
  second leaves two and no third.
\<close>

theorem kick_three_writes_stop_at_first_error:
  "(upcoming b 0 = Ack \<and> upcoming b 1 = Ack \<and> upcoming b 2 = Ack \<longrightarrow>
      fst (mcom_fpga_ping b) = 0 \<and>
      trace (snd (mcom_fpga_ping b)) =
        trace b @ [BusWrite WD_KICK 0x0000, BusWrite WD_KICK 0x0100, BusWrite WD_KICK 0x0000])
   \<and> (upcoming b 0 = Nak e \<longrightarrow>
      fst (mcom_fpga_ping b) = neg_errno e \<and>
      trace (snd (mcom_fpga_ping b)) = trace b @ [BusWrite WD_KICK 0x0000])
   \<and> (upcoming b 0 = Ack \<and> upcoming b 1 = Nak e \<longrightarrow>
      fst (mcom_fpga_ping b) = neg_errno e \<and>
      trace (snd (mcom_fpga_ping b)) =
        trace b @ [BusWrite WD_KICK 0x0000, BusWrite WD_KICK 0x0100])
   \<and> (upcoming b 0 = Ack \<and> upcoming b 1 = Ack \<and> upcoming b 2 = Nak e \<longrightarrow>
      fst (mcom_fpga_ping b) = neg_errno e \<and>
      trace (snd (mcom_fpga_ping b)) =
        trace b @ [BusWrite WD_KICK 0x0000, BusWrite WD_KICK 0x0100, BusWrite WD_KICK 0x0000])"
proof -
  have c1: "upcoming b 0 = Nak e \<longrightarrow>
      fst (mcom_fpga_ping b) = neg_errno e \<and>
      trace (snd (mcom_fpga_ping b)) = trace b @ [BusWrite WD_KICK 0x0000]"
    by (simp add: mcom_fpga_ping_def kick_first_Nak trace_advance)
  have c2: "upcoming b 0 = Ack \<and> upcoming b 1 = Nak e \<longrightarrow>
      fst (mcom_fpga_ping b) = neg_errno e \<and>
      trace (snd (mcom_fpga_ping b)) =
        trace b @ [BusWrite WD_KICK 0x0000, BusWrite WD_KICK 0x0100]"
    using kick_second_Nak [of b e] by (simp add: mcom_fpga_ping_def)
  have c3: "upcoming b 0 = Ack \<and> upcoming b 1 = Ack \<and> upcoming b 2 = Ack \<longrightarrow>
      fst (mcom_fpga_ping b) = 0 \<and>
      trace (snd (mcom_fpga_ping b)) =
        trace b @ [BusWrite WD_KICK 0x0000, BusWrite WD_KICK 0x0100, BusWrite WD_KICK 0x0000]"
    using kick_third [of b] by (simp add: mcom_fpga_ping_def)
  have c4: "upcoming b 0 = Ack \<and> upcoming b 1 = Ack \<and> upcoming b 2 = Nak e \<longrightarrow>
      fst (mcom_fpga_ping b) = neg_errno e \<and>
      trace (snd (mcom_fpga_ping b)) =
        trace b @ [BusWrite WD_KICK 0x0000, BusWrite WD_KICK 0x0100, BusWrite WD_KICK 0x0000]"
    using kick_third [of b] by (simp add: mcom_fpga_ping_def)
  from c1 c2 c3 c4 show ?thesis by blast
qed

theorem kick_three_writes_stop_at_first_error_witness:
  "upcoming (mock_bus WD_KICK 0 [Ack, Nak EIO]) 0 = Ack
   \<and> upcoming (mock_bus WD_KICK 0 [Ack, Nak EIO]) 1 = Nak EIO
   \<and> fst (mcom_fpga_ping (mock_bus WD_KICK 0 [Ack, Nak EIO])) = neg_errno EIO
   \<and> trace (snd (mcom_fpga_ping (mock_bus WD_KICK 0 [Ack, Nak EIO])))
       = [BusWrite WD_KICK 0x0000, BusWrite WD_KICK 0x0100]
   \<and> upcoming idle_bus 0 = Ack \<and> upcoming idle_bus 1 = Ack \<and> upcoming idle_bus 2 = Ack
   \<and> fst (mcom_fpga_ping idle_bus) = 0
   \<and> trace (snd (mcom_fpga_ping idle_bus))
       = [BusWrite WD_KICK 0x0000, BusWrite WD_KICK 0x0100, BusWrite WD_KICK 0x0000]
   \<and> upcoming (mock_bus WD_KICK 0 [Nak ETIMEDOUT]) 0 = Nak ETIMEDOUT
   \<and> fst (mcom_fpga_ping (mock_bus WD_KICK 0 [Nak ETIMEDOUT])) = neg_errno ETIMEDOUT
   \<and> trace (snd (mcom_fpga_ping (mock_bus WD_KICK 0 [Nak ETIMEDOUT])))
       = [BusWrite WD_KICK 0x0000]
   \<and> upcoming (mock_bus WD_KICK 0 [Ack, Ack, Nak ENXIO]) 2 = Nak ENXIO
   \<and> fst (mcom_fpga_ping (mock_bus WD_KICK 0 [Ack, Ack, Nak ENXIO])) = neg_errno ENXIO
   \<and> trace (snd (mcom_fpga_ping (mock_bus WD_KICK 0 [Ack, Ack, Nak ENXIO])))
       = [BusWrite WD_KICK 0x0000, BusWrite WD_KICK 0x0100, BusWrite WD_KICK 0x0000]"
proof -
  have u: "upcoming (mock_bus WD_KICK 0 [Ack, Nak EIO]) 0 = Ack"
    "upcoming (mock_bus WD_KICK 0 [Ack, Nak EIO]) 1 = Nak EIO"
    "upcoming idle_bus 0 = Ack" "upcoming idle_bus 1 = Ack" "upcoming idle_bus 2 = Ack"
    "upcoming (mock_bus WD_KICK 0 [Nak ETIMEDOUT]) 0 = Nak ETIMEDOUT"
    "upcoming (mock_bus WD_KICK 0 [Ack, Ack, Nak ENXIO]) 0 = Ack"
    "upcoming (mock_bus WD_KICK 0 [Ack, Ack, Nak ENXIO]) 1 = Ack"
    "upcoming (mock_bus WD_KICK 0 [Ack, Ack, Nak ENXIO]) 2 = Nak ENXIO"
    by (simp_all add: upcoming_def mock_bus_def idle_bus_def)
  have u1: "upcoming (mock_bus WD_KICK 0 [Ack, Nak EIO]) (Suc 0) = Nak EIO"
    "upcoming idle_bus (Suc 0) = Ack"
    "upcoming (mock_bus WD_KICK 0 [Ack, Ack, Nak ENXIO]) (Suc 0) = Ack"
    by (simp_all add: upcoming_def mock_bus_def idle_bus_def)
  have t: "trace (mock_bus r v s) = []" "trace idle_bus = []" for r v s
    by (simp_all add: mock_bus_def idle_bus_def)
  show ?thesis
    using kick_three_writes_stop_at_first_error [of "mock_bus WD_KICK 0 [Ack, Nak EIO]" EIO]
      kick_three_writes_stop_at_first_error [of idle_bus EIO]
      kick_three_writes_stop_at_first_error [of "mock_bus WD_KICK 0 [Nak ETIMEDOUT]" ETIMEDOUT]
      kick_three_writes_stop_at_first_error [of "mock_bus WD_KICK 0 [Ack, Ack, Nak ENXIO]" ENXIO]
    by (simp add: u u1 t)
qed

text \<open>
  Claim C3. \<open>mcom_fpga_set_mode\<close> first reads the status/control register. When the
  read fails, its error is returned, the read is the only transaction and no register has
  changed. When the read returns the old value, the next and last transaction is the
  write of \<open>(old AND 0x7F AND 0xF8) OR target\<close> to the same register; the call returns
  the result of that write, which stores the value when it is acknowledged.
\<close>

theorem set_mode_read_modify_write:
  "(upcoming b 0 = Nak e \<longrightarrow>
      fst (mcom_fpga_set_mode b target) = neg_errno e \<and>
      trace (snd (mcom_fpga_set_mode b target)) = trace b @ [BusRead WD_STATUS_CONTROLL] \<and>
      regs (snd (mcom_fpga_set_mode b target)) = regs b)
   \<and> (upcoming b 0 = Ack \<longrightarrow>
      trace (snd (mcom_fpga_set_mode b target)) =
        trace b @ [BusRead WD_STATUS_CONTROLL,
                   BusWrite WD_STATUS_CONTROLL
                     ((regs b WD_STATUS_CONTROLL AND 0x7F AND 0xF8) OR target)])
   \<and> (upcoming b 0 = Ack \<and> upcoming b 1 = Ack \<longrightarrow>
      fst (mcom_fpga_set_mode b target) = 0 \<and>
      regs (snd (mcom_fpga_set_mode b target)) =
        (regs b)(WD_STATUS_CONTROLL :=
                   (regs b WD_STATUS_CONTROLL AND 0x7F AND 0xF8) OR target))
   \<and> (upcoming b 0 = Ack \<and> upcoming b 1 = Nak e \<longrightarrow>
      fst (mcom_fpga_set_mode b target) = neg_errno e \<and>
      regs (snd (mcom_fpga_set_mode b target)) = regs b)"
proof -
  let ?S = WD_STATUS_CONTROLL
  let ?b1 = "advance (BusRead ?S) b"
  have v: "(regs b ?S AND 0x7F AND 0xF8) OR target = (regs b ?S AND 0x78) OR target"
    by (simp add: and.assoc)
  have c1: "upcoming b 0 = Nak e \<longrightarrow>
      fst (mcom_fpga_set_mode b target) = neg_errno e \<and>
      trace (snd (mcom_fpga_set_mode b target)) = trace b @ [BusRead ?S] \<and>
      regs (snd (mcom_fpga_set_mode b target)) = regs b"
    by (simp add: set_mode_read_Nak trace_advance regs_advance)
  have c2: "upcoming b 0 = Ack \<longrightarrow>
      trace (snd (mcom_fpga_set_mode b target)) =
        trace b @ [BusRead ?S, BusWrite ?S ((regs b ?S AND 0x78) OR target)]"
    by (cases "upcoming ?b1 0")
       (simp_all add: set_mode_read_Ack write_word_Ack write_word_Nak trace_advance)
  have c3: "upcoming b 0 = Ack \<and> upcoming b 1 = Ack \<longrightarrow>
      fst (mcom_fpga_set_mode b target) = 0 \<and>
      regs (snd (mcom_fpga_set_mode b target)) =
        (regs b)(?S := (regs b ?S AND 0x78) OR target)"
    by (simp add: set_mode_read_Ack write_word_Ack upcoming_advance regs_advance)
  have c4: "upcoming b 0 = Ack \<and> upcoming b 1 = Nak e \<longrightarrow>
      fst (mcom_fpga_set_mode b target) = neg_errno e \<and>
      regs (snd (mcom_fpga_set_mode b target)) = regs b"
    by (simp add: set_mode_read_Ack write_word_Nak upcoming_advance regs_advance)
  from c1 c2 c3 c4 show ?thesis unfolding v by blast
qed

theorem set_mode_read_modify_write_witness:
  "upcoming (mock_bus WD_STATUS_CONTROLL 0x12FF [Nak EIO]) 0 = Nak EIO
   \<and> fst (mcom_fpga_set_mode (mock_bus WD_STATUS_CONTROLL 0x12FF [Nak EIO]) 0x02)
        = neg_errno EIO
   \<and> trace (snd (mcom_fpga_set_mode (mock_bus WD_STATUS_CONTROLL 0x12FF [Nak EIO]) 0x02))
        = [BusRead WD_STATUS_CONTROLL]
   \<and> regs (snd (mcom_fpga_set_mode (mock_bus WD_STATUS_CONTROLL 0x12FF [Nak EIO]) 0x02))
          WD_STATUS_CONTROLL = 0x12FF
   \<and> upcoming (mock_bus WD_STATUS_CONTROLL 0x12FF []) 0 = Ack
   \<and> upcoming (mock_bus WD_STATUS_CONTROLL 0x12FF []) 1 = Ack
   \<and> fst (mcom_fpga_set_mode (mock_bus WD_STATUS_CONTROLL 0x12FF []) 0x02) = 0
   \<and> trace (snd (mcom_fpga_set_mode (mock_bus WD_STATUS_CONTROLL 0x12FF []) 0x02))
        = [BusRead WD_STATUS_CONTROLL, BusWrite WD_STATUS_CONTROLL 0x7A]
   \<and> regs (snd (mcom_fpga_set_mode (mock_bus WD_STATUS_CONTROLL 0x12FF []) 0x02))
          WD_STATUS_CONTROLL = 0x7A
   \<and> upcoming (mock_bus WD_STATUS_CONTROLL 0x12FF [Ack, Nak ENXIO]) 1 = Nak ENXIO
   \<and> fst (mcom_fpga_set_mode (mock_bus WD_STATUS_CONTROLL 0x12FF [Ack, Nak ENXIO]) 0x02)
        = neg_errno ENXIO
   \<and> regs (snd (mcom_fpga_set_mode (mock_bus WD_STATUS_CONTROLL 0x12FF [Ack, Nak ENXIO]) 0x02))
          WD_STATUS_CONTROLL = 0x12FF"
proof -
  have u: "upcoming (mock_bus WD_STATUS_CONTROLL 0x12FF [Nak EIO]) 0 = Nak EIO"
    "upcoming (mock_bus WD_STATUS_CONTROLL 0x12FF []) 0 = Ack"
    "upcoming (mock_bus WD_STATUS_CONTROLL 0x12FF []) 1 = Ack"
    "upcoming (mock_bus WD_STATUS_CONTROLL 0x12FF []) (Suc 0) = Ack"
    "upcoming (mock_bus WD_STATUS_CONTROLL 0x12FF [Ack, Nak ENXIO]) 0 = Ack"
    "upcoming (mock_bus WD_STATUS_CONTROLL 0x12FF [Ack, Nak ENXIO]) 1 = Nak ENXIO"
    "upcoming (mock_bus WD_STATUS_CONTROLL 0x12FF [Ack, Nak ENXIO]) (Suc 0) = Nak ENXIO"
    by (simp_all add: upcoming_def mock_bus_def idle_bus_def)
  have t: "trace (mock_bus r v s) = []" "regs (mock_bus r v s) r = v" for r v s
    by (simp_all add: mock_bus_def idle_bus_def)
  show ?thesis
    using set_mode_read_modify_write
        [of "mock_bus WD_STATUS_CONTROLL 0x12FF [Nak EIO]" EIO "0x02"]
      set_mode_read_modify_write
        [of "mock_bus WD_STATUS_CONTROLL 0x12FF []" EIO "0x02"]
      set_mode_read_modify_write
        [of "mock_bus WD_STATUS_CONTROLL 0x12FF [Ack, Nak ENXIO]" ENXIO "0x02"]
    by (simp add: u t)
qed

text \<open>
  A mode outside the canonical set is not turned away: on a bus that acknowledges, the
  mode 0x08 is read-modify-written like any other and the call returns 0.
\<close>

theorem set_mode_noncanonical_counterexample:
  "(0x08 :: u16) \<notin> {WD_START_MODE, WD_NORMAL_MODE, WD_DOWN_MODE}
   \<and> fst (mcom_fpga_set_mode idle_bus 0x08) = 0
   \<and> trace (snd (mcom_fpga_set_mode idle_bus 0x08))
        = [BusRead WD_STATUS_CONTROLL, BusWrite WD_STATUS_CONTROLL 0x08]
   \<and> regs (snd (mcom_fpga_set_mode idle_bus 0x08)) WD_STATUS_CONTROLL = 0x08"
  by (simp add: mcom_fpga_set_mode_def bus_eval reg_eval word_sless_alt)

text \<open>
  Claim C4, as amended. \<open>mcom_fpga_set_mode\<close> does not check the mode value: for every
  mode, canonical or not, the status read is its first bus transaction; it returns 0
  exactly when the read and the write are both acknowledged; and its return value and
  the number of its transactions are those of a call with the start mode. The callers in
  the driver, \<open>mcom_fpga_start\<close> and \<open>mcom_fpga_stop\<close>, pass 0x01 and 0x04.
\<close>

theorem set_mode_no_mode_check:
  "(\<exists>rest. trace (snd (mcom_fpga_set_mode b m))
              = trace b @ BusRead WD_STATUS_CONTROLL # rest)
   \<and> (fst (mcom_fpga_set_mode b m) = 0) = (upcoming b 0 = Ack \<and> upcoming b 1 = Ack)
   \<and> fst (mcom_fpga_set_mode b m) = fst (mcom_fpga_set_mode b WD_START_MODE)
   \<and> length (trace (snd (mcom_fpga_set_mode b m)))
       = length (trace (snd (mcom_fpga_set_mode b WD_START_MODE)))
   \<and> mcom_fpga_start b = mcom_fpga_set_mode b 0x01
   \<and> mcom_fpga_stop b = mcom_fpga_set_mode b 0x04"
proof (cases "upcoming b 0")
  case Ack
  let ?b1 = "advance (BusRead WD_STATUS_CONTROLL) b"
  show ?thesis
  proof (cases "upcoming b 1")
    case a: Ack
    then have "upcoming ?b1 0 = Ack" by (simp add: upcoming_advance)
    with Ack a show ?thesis
      by (simp add: set_mode_read_Ack write_word_Ack trace_advance mcom_fpga_start_def
          mcom_fpga_stop_def WD_START_MODE_def WD_DOWN_MODE_def)
  next
    case n: (Nak e)
    then have "upcoming ?b1 0 = Nak e" by (simp add: upcoming_advance)
    with Ack n show ?thesis
      by (simp add: set_mode_read_Ack write_word_Nak trace_advance neg_errno_nz
          mcom_fpga_start_def mcom_fpga_stop_def WD_START_MODE_def WD_DOWN_MODE_def)
  qed
next
  case (Nak e)
  then show ?thesis
    by (simp add: set_mode_read_Nak trace_advance neg_errno_nz mcom_fpga_start_def
        mcom_fpga_stop_def WD_START_MODE_def WD_DOWN_MODE_def)
qed

subsection \<open>Setting the timeout\<close>

lemma set_timeout_Ack:
  "upcoming b 0 = Ack \<Longrightarrow>
   mcom_fpga_set_timeout wdd b t =
     (0, wdd\<lparr>timeout := t\<rparr>,
      advance (BusWrite WD_UPTIME (ucast t)) (b\<lparr>regs := (regs b)(WD_UPTIME := ucast t)\<rparr>))"
  by (simp add: mcom_fpga_set_timeout_def write_word_Ack)

lemma set_timeout_Nak:
  "upcoming b 0 = Nak e \<Longrightarrow>
   mcom_fpga_set_timeout wdd b t =
     (neg_errno e, wdd, advance (BusWrite WD_UPTIME (ucast t)) b)"
  by (simp add: mcom_fpga_set_timeout_def write_word_Nak neg_errno_nz)

lemma set_timeout_success:
  assumes "mcom_fpga_set_timeout wdd b t = (0, wdd', b')"
  shows "upcoming b 0 = Ack" and "wdd' = wdd\<lparr>timeout := t\<rparr>"
    and "regs b' = (regs b)(WD_UPTIME := ucast t)"
    and "trace b' = trace b @ [BusWrite WD_UPTIME (ucast t)]"
proof -
  show a: "upcoming b 0 = Ack"
  proof (cases "upcoming b 0")
    case (Nak e)
    with assms show ?thesis by (simp add: set_timeout_Nak neg_errno_nz)
  qed simp
  from assms show "wdd' = wdd\<lparr>timeout := t\<rparr>"
    by (simp add: set_timeout_Ack [OF a])
  from assms show "regs b' = (regs b)(WD_UPTIME := ucast t)"
    by (auto simp add: set_timeout_Ack [OF a] regs_advance)
  from assms show "trace b' = trace b @ [BusWrite WD_UPTIME (ucast t)]"
    by (auto simp add: set_timeout_Ack [OF a] advance_def)
qed

lemma unat_ucast_u32_u16: "unat (ucast (t :: u32) :: u16) = unat t mod 65536"
  by (simp add: unsigned_ucast_eq take_bit_eq_mod)

text \<open>
  Claim C5, as amended. For every timeout \<open>t\<close>, \<open>mcom_fpga_set_timeout\<close> issues one
  write to the uptime register, of the low 16 bits of \<open>t\<close> (\<open>t mod 2 ^ 16\<close>, which is
  \<open>t\<close> up to 65535). When the write is acknowledged the call returns 0 and
  \<open>wdd->timeout\<close> is \<open>t\<close>; when it fails the error is returned, and \<open>wdd\<close> and the
  registers are as before.
\<close>

theorem set_timeout_cache_iff_write_ok:
  "trace (snd (snd (mcom_fpga_set_timeout wdd b t)))
       = trace b @ [BusWrite WD_UPTIME (ucast t)]
   \<and> unat (ucast t :: u16) = unat t mod 2 ^ 16
   \<and> (upcoming b 0 = Ack \<longrightarrow>
        fst (mcom_fpga_set_timeout wdd b t) = 0 \<and>
        timeout (fst (snd (mcom_fpga_set_timeout wdd b t))) = t \<and>
        regs (snd (snd (mcom_fpga_set_timeout wdd b t))) = (regs b)(WD_UPTIME := ucast t))
   \<and> (upcoming b 0 = Nak e \<longrightarrow>
        fst (mcom_fpga_set_timeout wdd b t) = neg_errno e \<and>
        fst (mcom_fpga_set_timeout wdd b t) \<noteq> 0 \<and>
        fst (snd (mcom_fpga_set_timeout wdd b t)) = wdd \<and>
        regs (snd (snd (mcom_fpga_set_timeout wdd b t))) = regs b)"
proof -
  have tr: "trace (snd (snd (mcom_fpga_set_timeout wdd b t)))
       = trace b @ [BusWrite WD_UPTIME (ucast t)]"
    by (cases "upcoming b 0") (simp_all add: set_timeout_Ack set_timeout_Nak trace_advance)
  have tb: "unat (ucast t :: u16) = unat t mod 2 ^ 16"
    by (simp add: unat_ucast_u32_u16)
  have ok: "upcoming b 0 = Ack \<longrightarrow>
        fst (mcom_fpga_set_timeout wdd b t) = 0 \<and>
        timeout (fst (snd (mcom_fpga_set_timeout wdd b t))) = t \<and>
        regs (snd (snd (mcom_fpga_set_timeout wdd b t))) = (regs b)(WD_UPTIME := ucast t)"
    by (simp add: set_timeout_Ack regs_advance)
  have bad: "upcoming b 0 = Nak e \<longrightarrow>
        fst (mcom_fpga_set_timeout wdd b t) = neg_errno e \<and>
        fst (mcom_fpga_set_timeout wdd b t) \<noteq> 0 \<and>
        fst (snd (mcom_fpga_set_timeout wdd b t)) = wdd \<and>
        regs (snd (snd (mcom_fpga_set_timeout wdd b t))) = regs b"
    by (simp add: set_timeout_Nak regs_advance neg_errno_nz)
  from tr tb ok bad show ?thesis by blast
qed

theorem set_timeout_cache_iff_write_ok_witness:
  "upcoming idle_bus 0 = Ack
   \<and> fst (mcom_fpga_set_timeout \<lparr>timeout = 60\<rparr> idle_bus 300) = 0
   \<and> timeout (fst (snd (mcom_fpga_set_timeout \<lparr>timeout = 60\<rparr> idle_bus 300))) = 300
   \<and> regs (snd (snd (mcom_fpga_set_timeout \<lparr>timeout = 60\<rparr> idle_bus 300))) WD_UPTIME = 300
   \<and> trace (snd (snd (mcom_fpga_set_timeout \<lparr>timeout = 60\<rparr> idle_bus 300)))
        = [BusWrite WD_UPTIME 300]
   \<and> upcoming (mock_bus WD_UPTIME 60 [Nak ETIMEDOUT]) 0 = Nak ETIMEDOUT
   \<and> fst (mcom_fpga_set_timeout \<lparr>timeout = 60\<rparr> (mock_bus WD_UPTIME 60 [Nak ETIMEDOUT]) 300)
        = neg_errno ETIMEDOUT
   \<and> timeout (fst (snd (mcom_fpga_set_timeout \<lparr>timeout = 60\<rparr>
        (mock_bus WD_UPTIME 60 [Nak ETIMEDOUT]) 300))) = 60
   \<and> regs (snd (snd (mcom_fpga_set_timeout \<lparr>timeout = 60\<rparr>
        (mock_bus WD_UPTIME 60 [Nak ETIMEDOUT]) 300))) WD_UPTIME = 60"
proof -
  have u: "upcoming idle_bus 0 = Ack"
    "upcoming (mock_bus WD_UPTIME 60 [Nak ETIMEDOUT]) 0 = Nak ETIMEDOUT"
    by (simp_all add: upcoming_def mock_bus_def idle_bus_def)
  have t: "trace idle_bus = []" "regs (mock_bus r v s) r = v" for r v s
    by (simp_all add: mock_bus_def idle_bus_def)
  show ?thesis
    using set_timeout_cache_iff_write_ok [of "\<lparr>timeout = 60\<rparr>" idle_bus 300 EIO]
      set_timeout_cache_iff_write_ok
        [of "\<lparr>timeout = 60\<rparr>" "mock_bus WD_UPTIME 60 [Nak ETIMEDOUT]" 300 ETIMEDOUT]
    by (simp add: u t)
qed

text \<open>
  The value 65536 itself does not reach the register: the write carries 0.
\<close>

theorem set_timeout_truncation_counterexample:
  "fst (mcom_fpga_set_timeout \<lparr>timeout = 0\<rparr> idle_bus 65536) = 0
   \<and> trace (snd (snd (mcom_fpga_set_timeout \<lparr>timeout = 0\<rparr> idle_bus 65536)))
        = [BusWrite WD_UPTIME 0]
   \<and> unat (regs (snd (snd (mcom_fpga_set_timeout \<lparr>timeout = 0\<rparr> idle_bus 65536))) WD_UPTIME)
        \<noteq> unat (65536 :: u32)"
  by (simp add: mcom_fpga_set_timeout_def bus_eval reg_eval)

text \<open>
  Claim C10. For every timeout \<open>t\<close> above 65535, a call of \<open>mcom_fpga_set_timeout\<close>
  that returns 0 has written \<open>t mod 2 ^ 16\<close> to the uptime register, with no clamp and
  no rejection, and has stored the whole of \<open>t\<close> in \<open>wdd->timeout\<close>: the cached
  timeout and the register differ.
\<close>

theorem set_timeout_truncates_above_u16:
  assumes "65535 < unat t" and "mcom_fpga_set_timeout wdd b t = (0, wdd', b')"
  shows "unat (regs b' WD_UPTIME) = unat t mod 2 ^ 16
       \<and> trace b' = trace b @ [BusWrite WD_UPTIME (ucast t)]
       \<and> timeout wdd' = t
       \<and> unat (timeout wdd') \<noteq> unat (regs b' WD_UPTIME)"
proof -
  have r: "regs b' WD_UPTIME = ucast t"
    using set_timeout_success(3) [OF assms(2)] by simp
  then have m: "unat (regs b' WD_UPTIME) = unat t mod 2 ^ 16"
    by (simp add: unat_ucast_u32_u16)
  have c: "timeout wdd' = t"
    using set_timeout_success(2) [OF assms(2)] by simp
  have "unat t mod 2 ^ 16 < 65536" by simp
  with assms(1) have "unat t \<noteq> unat t mod 2 ^ 16" by linarith
  with m c set_timeout_success(4) [OF assms(2)] show ?thesis by simp
qed

theorem set_timeout_truncates_above_u16_witness:
  "65535 < unat (70000 :: u32)
   \<and> mcom_fpga_set_timeout \<lparr>timeout = 0\<rparr> idle_bus 70000
       = (0, fst (snd (mcom_fpga_set_timeout \<lparr>timeout = 0\<rparr> idle_bus 70000)),
             snd (snd (mcom_fpga_set_timeout \<lparr>timeout = 0\<rparr> idle_bus 70000)))
   \<and> unat (regs (snd (snd (mcom_fpga_set_timeout \<lparr>timeout = 0\<rparr> idle_bus 70000))) WD_UPTIME)
       = 4464
   \<and> timeout (fst (snd (mcom_fpga_set_timeout \<lparr>timeout = 0\<rparr> idle_bus 70000))) = 70000"
proof -
  let ?r = "mcom_fpga_set_timeout \<lparr>timeout = 0\<rparr> idle_bus 70000"
  have big: "65535 < unat (70000 :: u32)" by simp
  have "fst ?r = 0" by (simp add: mcom_fpga_set_timeout_def bus_eval reg_eval)
  then have ok: "?r = (0, fst (snd ?r), snd (snd ?r))"
    by (metis prod.collapse)
  show ?thesis
    using set_timeout_truncates_above_u16 [OF big ok] big ok by simp
qed

subsection \<open>Stopping twice, and the bits a mode change keeps\<close>

text \<open>
  Claim C8. Two calls of \<open>mcom_fpga_stop\<close> in a row that both return 0 perform the
  read-modify-write twice (read, write, read, write, with the same value written), and
  the status/control register, like every other register, holds after the second call
  what it held after the first.
\<close>

theorem stop_twice_same_register:
  assumes "mcom_fpga_stop b = (0, b1)" and "mcom_fpga_stop b1 = (0, b2)"
  shows "regs b2 WD_STATUS_CONTROLL = regs b1 WD_STATUS_CONTROLL
       \<and> regs b1 WD_STATUS_CONTROLL = (regs b WD_STATUS_CONTROLL AND 0x78) OR WD_DOWN_MODE
       \<and> regs b2 = regs b1
       \<and> trace b2 = trace b @
           [BusRead WD_STATUS_CONTROLL,
            BusWrite WD_STATUS_CONTROLL ((regs b WD_STATUS_CONTROLL AND 0x78) OR WD_DOWN_MODE),
            BusRead WD_STATUS_CONTROLL,
            BusWrite WD_STATUS_CONTROLL ((regs b WD_STATUS_CONTROLL AND 0x78) OR WD_DOWN_MODE)]"
proof -
  let ?S = WD_STATUS_CONTROLL
  let ?v = "(regs b ?S AND 0x78) OR WD_DOWN_MODE"
  from assms have s1: "mcom_fpga_set_mode b WD_DOWN_MODE = (0, b1)"
    and s2: "mcom_fpga_set_mode b1 WD_DOWN_MODE = (0, b2)"
    by (simp_all add: mcom_fpga_stop_def)
  have r1: "regs b1 = (regs b)(?S := ?v)" by (rule set_mode_success(3) [OF s1])
  have t1: "trace b1 = trace b @ [BusRead ?S, BusWrite ?S ?v]"
    by (rule set_mode_success(4) [OF s1])
  have again: "(?v AND 0x78) OR WD_DOWN_MODE = ?v"
    by (simp add: bit.conj_disj_distrib2 and.assoc or.assoc WD_DOWN_MODE_def)
  have r2: "regs b2 = (regs b1)(?S := (regs b1 ?S AND 0x78) OR WD_DOWN_MODE)"
    by (rule set_mode_success(3) [OF s2])
  have t2: "trace b2 = trace b1 @ [BusRead ?S, BusWrite ?S ((regs b1 ?S AND 0x78) OR WD_DOWN_MODE)]"
    by (rule set_mode_success(4) [OF s2])
  have v1: "regs b1 ?S = ?v" by (simp add: r1)
  have r21: "regs b2 = regs b1" unfolding r2 v1 again by (simp add: r1)
  have t21: "trace b2 = trace b @ [BusRead ?S, BusWrite ?S ?v, BusRead ?S, BusWrite ?S ?v]"
    unfolding t2 v1 again by (simp add: t1)
  from r21 v1 t21 show ?thesis by simp
qed

theorem stop_twice_same_register_witness:
  "mcom_fpga_stop (mock_bus WD_STATUS_CONTROLL 0xFFFF [])
     = (0, snd (mcom_fpga_stop (mock_bus WD_STATUS_CONTROLL 0xFFFF [])))
   \<and> mcom_fpga_stop (snd (mcom_fpga_stop (mock_bus WD_STATUS_CONTROLL 0xFFFF [])))
     = (0, snd (mcom_fpga_stop (snd (mcom_fpga_stop (mock_bus WD_STATUS_CONTROLL 0xFFFF [])))))
   \<and> regs (snd (mcom_fpga_stop (mock_bus WD_STATUS_CONTROLL 0xFFFF []))) WD_STATUS_CONTROLL
       = 0x7C
   \<and> regs (snd (mcom_fpga_stop (snd (mcom_fpga_stop (mock_bus WD_STATUS_CONTROLL 0xFFFF [])))))
        WD_STATUS_CONTROLL = 0x7C
   \<and> trace (snd (mcom_fpga_stop (snd (mcom_fpga_stop (mock_bus WD_STATUS_CONTROLL 0xFFFF [])))))
       = [BusRead WD_STATUS_CONTROLL, BusWrite WD_STATUS_CONTROLL 0x7C,
          BusRead WD_STATUS_CONTROLL, BusWrite WD_STATUS_CONTROLL 0x7C]"
proof -
  let ?b = "mock_bus WD_STATUS_CONTROLL 0xFFFF []"
  let ?b1 = "snd (mcom_fpga_stop ?b)"
  let ?b2 = "snd (mcom_fpga_stop ?b1)"
  have "fst (mcom_fpga_stop ?b) = 0"
    by (simp add: mcom_fpga_stop_def mcom_fpga_set_mode_def bus_eval reg_eval word_sless_alt)
  then have ok1: "mcom_fpga_stop ?b = (0, ?b1)" by (metis prod.collapse)
  have "fst (mcom_fpga_stop ?b1) = 0"
    by (simp add: mcom_fpga_stop_def mcom_fpga_set_mode_def bus_eval reg_eval word_sless_alt)
  then have ok2: "mcom_fpga_stop ?b1 = (0, ?b2)" by (metis prod.collapse)
  have v: "regs ?b WD_STATUS_CONTROLL = 0xFFFF" "trace ?b = []"
    by (simp_all add: mock_bus_def idle_bus_def)
  show ?thesis
    using stop_twice_same_register [OF ok1 ok2] ok1 ok2 by (simp add: v WD_DOWN_MODE_def)
qed

lemma bit_0x78: "bit (0x78 :: u16) n \<longleftrightarrow> 3 \<le> n \<and> n \<le> 6"
proof -
  have e: "(0x78 :: u16) = push_bit 3 (mask 4)" by (simp add: mask_eq_exp_minus_1)
  have "bit (push_bit 3 (mask 4) :: u16) n \<longleftrightarrow> 3 \<le> n \<and> n \<le> 6"
    by (auto simp add: bit_simps)
  then show ?thesis by (simp only: e)
qed

text \<open>
  Claim C9. After a call of \<open>mcom_fpga_set_mode\<close> that returns 0, the status/control
  register is \<open>(v AND 0x78) OR m\<close> for the prior value \<open>v\<close>, where 0x78 is the
  intersection of the two masks: bits 0 to 2, bit 7 and bits 8 to 15 of \<open>v\<close> are zero
  in the kept part, so a bit of the new value is set exactly when it is set in \<open>m\<close>, or
  it is one of bits 3 to 6 and set in \<open>v\<close>.
\<close>

theorem set_mode_keeps_bits_3_to_6_only:
  assumes "mcom_fpga_set_mode b m = (0, b')"
  shows "regs b' WD_STATUS_CONTROLL = (regs b WD_STATUS_CONTROLL AND 0x78) OR m
       \<and> (ucast (WD_DIS_MASK AND WD_MODE_MASK) :: u16) = 0x78
       \<and> (regs b WD_STATUS_CONTROLL AND 0x78) AND 0xFF87 = 0
       \<and> (\<forall>n. bit (regs b' WD_STATUS_CONTROLL) n
              = (bit m n \<or> (bit (regs b WD_STATUS_CONTROLL) n \<and> 3 \<le> n \<and> n \<le> 6)))"
proof -
  let ?v = "regs b WD_STATUS_CONTROLL"
  have new: "regs b' WD_STATUS_CONTROLL = (?v AND 0x78) OR m"
    using set_mode_success(3) [OF assms] by simp
  have masks: "(ucast (WD_DIS_MASK AND WD_MODE_MASK) :: u16) = 0x78"
    by (simp add: WD_DIS_MASK_def WD_MODE_MASK_def)
  have cleared: "(?v AND 0x78) AND 0xFF87 = 0"
    by (simp add: and.assoc)
  have bits: "bit ((?v AND 0x78) OR m) n = (bit m n \<or> (bit ?v n \<and> 3 \<le> n \<and> n \<le> 6))" for n
    by (simp only: bit_or_iff bit_and_iff bit_0x78) blast
  from new masks cleared bits show ?thesis by simp
qed

theorem set_mode_keeps_bits_3_to_6_only_witness:
  "mcom_fpga_set_mode (mock_bus WD_STATUS_CONTROLL 0xFFFF []) 0x01
     = (0, snd (mcom_fpga_set_mode (mock_bus WD_STATUS_CONTROLL 0xFFFF []) 0x01))
   \<and> regs (snd (mcom_fpga_set_mode (mock_bus WD_STATUS_CONTROLL 0xFFFF []) 0x01))
        WD_STATUS_CONTROLL = 0x79"
proof -
  let ?b = "mock_bus WD_STATUS_CONTROLL 0xFFFF []"
  have "fst (mcom_fpga_set_mode ?b 0x01) = 0"
    by (simp add: mcom_fpga_set_mode_def bus_eval reg_eval word_sless_alt)
  then have ok: "mcom_fpga_set_mode ?b 0x01 = (0, snd (mcom_fpga_set_mode ?b 0x01))"
    by (metis prod.collapse)
  have v: "regs ?b WD_STATUS_CONTROLL = 0xFFFF" by (simp add: mock_bus_def idle_bus_def)
  show ?thesis
    using set_mode_keeps_bits_3_to_6_only [OF ok] ok by (simp add: v)
qed

subsection \<open>Probe\<close>

lemma ucast_u16_s32_u16: "(ucast (ucast (v :: u16) :: s32) :: u16) = v"
  by (rule bit_word_eqI) (auto simp add: bit_simps)

lemma trace_regs_update: "trace (b\<lparr>regs := f\<rparr>) = trace b"
  by simp

lemma probe_configure_write_Nak:
  "upcoming b 0 = Nak e \<Longrightarrow>
   probe_configure env wdd b =
     \<lparr>ret = neg_errno e, data = Some wdd, register_called = False,
      bus_after = advance (BusWrite WD_UPTIME (ucast (timeout wdd))) b\<rparr>"
  by (simp add: probe_configure_def set_timeout_Nak neg_errno_nz)

lemma probe_configure_byte_Nak:
  assumes "upcoming b 0 = Ack" and "upcoming b 1 = Nak e"
  shows "ret (probe_configure env wdd b) = neg_errno e"
    and "\<not> register_called (probe_configure env wdd b)"
    and "trace (bus_after (probe_configure env wdd b))
           = trace b @ [BusWrite WD_UPTIME (ucast (timeout wdd)), BusWriteByte 0x06 0x00]"
proof -
  let ?b1 = "advance (BusWrite WD_UPTIME (ucast (timeout wdd)))
               (b\<lparr>regs := (regs b)(WD_UPTIME := ucast (timeout wdd))\<rparr>)"
  let ?b2 = "advance (BusWriteByte 0x06 0x00) ?b1"
  have s: "mcom_fpga_set_timeout wdd b (timeout wdd) = (0, wdd, ?b1)"
    using assms(1) by (simp add: set_timeout_Ack)
  have "upcoming ?b1 0 = Nak e"
    using assms(2) by (simp add: upcoming_advance upcoming_regs_update)
  then have w: "i2c_smbus_write_byte_data ?b1 0x06 0x00 = (neg_errno e, ?b2)"
    by (rule write_byte_Nak)
  have p: "probe_configure env wdd b =
      \<lparr>ret = neg_errno e, data = Some wdd, register_called = False, bus_after = ?b2\<rparr>"
    unfolding probe_configure_def s using w by (simp add: neg_errno_nz)
  show "ret (probe_configure env wdd b) = neg_errno e"
    and "\<not> register_called (probe_configure env wdd b)"
    by (simp_all add: p)
  show "trace (bus_after (probe_configure env wdd b))
           = trace b @ [BusWrite WD_UPTIME (ucast (timeout wdd)), BusWriteByte 0x06 0x00]"
    by (simp add: p advance_def)
qed

lemma probe_configure_done:
  assumes "upcoming b 0 = Ack" and "upcoming b 1 = Ack"
  shows "ret (probe_configure env wdd b) = register_ret env"
    and "register_called (probe_configure env wdd b)"
    and "data (probe_configure env wdd b) = Some wdd"
    and "regs (bus_after (probe_configure env wdd b))
           = (regs b)(WD_UPTIME := ucast (timeout wdd))"
    and "trace (bus_after (probe_configure env wdd b))
           = trace b @ [BusWrite WD_UPTIME (ucast (timeout wdd)), BusWriteByte 0x06 0x00]"
proof -
  let ?b1 = "advance (BusWrite WD_UPTIME (ucast (timeout wdd)))
               (b\<lparr>regs := (regs b)(WD_UPTIME := ucast (timeout wdd))\<rparr>)"
  let ?b2 = "advance (BusWriteByte 0x06 0x00) (?b1\<lparr>bregs := (bregs ?b1)(0x06 := 0x00)\<rparr>)"
  have s: "mcom_fpga_set_timeout wdd b (timeout wdd) = (0, wdd, ?b1)"
    using assms(1) by (simp add: set_timeout_Ack)
  have "upcoming ?b1 0 = Ack"
    using assms(2) by (simp add: upcoming_advance upcoming_regs_update)
  then have w: "i2c_smbus_write_byte_data ?b1 0x06 0x00 = (0, ?b2)"
    by (rule write_byte_Ack)
  have p: "probe_configure env wdd b =
      \<lparr>ret = register_ret env, data = Some wdd, register_called = True, bus_after = ?b2\<rparr>"
    unfolding probe_configure_def s using w by simp
  show "ret (probe_configure env wdd b) = register_ret env"
    and "register_called (probe_configure env wdd b)"
    and "data (probe_configure env wdd b) = Some wdd"
    by (simp_all add: p)
  show "regs (bus_after (probe_configure env wdd b))
           = (regs b)(WD_UPTIME := ucast (timeout wdd))"
    by (simp add: p advance_def)
  show "trace (bus_after (probe_configure env wdd b))
           = trace b @ [BusWrite WD_UPTIME (ucast (timeout wdd)), BusWriteByte 0x06 0x00]"
    by (simp add: p advance_def)
qed

lemma probe_unset_read:
  assumes "functionality env" "addr env = 0x3c" "kzalloc_ok env" "wdt_timeout env = 0"
  shows "upcoming b 0 = Nak e \<Longrightarrow>
           mcom_fpga_probe env b =
             \<lparr>ret = neg_errno e, data = Some \<lparr>timeout = 0\<rparr>, register_called = False,
              bus_after = advance (BusRead WD_UPTIME) b\<rparr>"
    and "upcoming b 0 = Ack \<Longrightarrow>
           mcom_fpga_probe env b =
             probe_configure env \<lparr>timeout = ucast (regs b WD_UPTIME)\<rparr>
               (advance (BusRead WD_UPTIME) b)"
  using assms
  by (simp_all add: mcom_fpga_probe_def watchdog_init_timeout_def read_word_Nak read_word_Ack
      neg_errno_neg ucast_not_neg)

lemma probe_override:
  assumes "functionality env" "addr env = 0x3c" "kzalloc_ok env" "wdt_timeout env \<noteq> 0"
  shows "mcom_fpga_probe env b = probe_configure env \<lparr>timeout = wdt_timeout env\<rparr> b"
  using assms by (simp add: mcom_fpga_probe_def watchdog_init_timeout_def)

lemma ucast_u32_u16_u32:
  assumes "unat (t :: u32) \<le> 65535"
  shows "(ucast (ucast t :: u16) :: u32) = t"
proof -
  have "unat (ucast (ucast t :: u16) :: u32) = unat t mod 65536"
    by (simp add: unsigned_ucast_eq take_bit_eq_mod unat_mod)
  with assms show ?thesis by (simp add: word_unat_eq_iff)
qed

text \<open>
  Claim C6, as amended. For a device the probe accepts: when the initial timeout is zero,
  the uptime register is read and its value becomes the timeout; then one write to the
  uptime register follows (the only write to that register during the probe), carrying
  the low 16 bits of the resolved timeout. When the read, that write or the byte write
  after it fails, the probe returns the error and \<open>watchdog_register_device\<close> is not
  reached. After a probe that reaches the registration, \<open>wdd->timeout\<close> is the value the
  uptime register holds when the timeout was adopted from the register or the module
  parameter is at most 65535; for a larger parameter the register holds the parameter
  modulo \<open>2 ^ 16\<close> while \<open>wdd->timeout\<close> is the parameter. With the uptime register at
  120 and no parameter, the probe returns what the registration returns, with the
  timeout 120.
\<close>

theorem probe_adopts_uptime_and_sets_timeout_once:
  assumes "functionality env" and "addr env = 0x3c" and "kzalloc_ok env"
  shows
   "(wdt_timeout env = 0 \<and> upcoming b 0 = Nak e \<longrightarrow>
       ret (mcom_fpga_probe env b) = neg_errno e \<and>
       \<not> register_called (mcom_fpga_probe env b) \<and>
       trace (bus_after (mcom_fpga_probe env b)) = trace b @ [BusRead WD_UPTIME])
    \<and> (wdt_timeout env = 0 \<and> upcoming b 0 = Ack \<and> upcoming b 1 = Nak e \<longrightarrow>
       ret (mcom_fpga_probe env b) = neg_errno e \<and>
       \<not> register_called (mcom_fpga_probe env b) \<and>
       trace (bus_after (mcom_fpga_probe env b)) =
         trace b @ [BusRead WD_UPTIME, BusWrite WD_UPTIME (regs b WD_UPTIME)])
    \<and> (wdt_timeout env = 0 \<and> upcoming b 0 = Ack \<and> upcoming b 1 = Ack \<and>
        upcoming b 2 = Nak e \<longrightarrow>
       ret (mcom_fpga_probe env b) = neg_errno e \<and>
       \<not> register_called (mcom_fpga_probe env b) \<and>
       trace (bus_after (mcom_fpga_probe env b)) =
         trace b @ [BusRead WD_UPTIME, BusWrite WD_UPTIME (regs b WD_UPTIME),
                    BusWriteByte 0x06 0x00])
    \<and> (wdt_timeout env = 0 \<and> upcoming b 0 = Ack \<and> upcoming b 1 = Ack \<and>
        upcoming b 2 = Ack \<longrightarrow>
       ret (mcom_fpga_probe env b) = register_ret env \<and>
       register_called (mcom_fpga_probe env b) \<and>
       data (mcom_fpga_probe env b) = Some \<lparr>timeout = ucast (regs b WD_UPTIME)\<rparr> \<and>
       regs (bus_after (mcom_fpga_probe env b)) WD_UPTIME = regs b WD_UPTIME \<and>
       data (mcom_fpga_probe env b) =
         Some \<lparr>timeout = ucast (regs (bus_after (mcom_fpga_probe env b)) WD_UPTIME)\<rparr> \<and>
       trace (bus_after (mcom_fpga_probe env b)) =
         trace b @ [BusRead WD_UPTIME, BusWrite WD_UPTIME (regs b WD_UPTIME),
                    BusWriteByte 0x06 0x00])
    \<and> (wdt_timeout env \<noteq> 0 \<and> upcoming b 0 = Nak e \<longrightarrow>
       ret (mcom_fpga_probe env b) = neg_errno e \<and>
       \<not> register_called (mcom_fpga_probe env b) \<and>
       trace (bus_after (mcom_fpga_probe env b)) =
         trace b @ [BusWrite WD_UPTIME (ucast (wdt_timeout env))])
    \<and> (wdt_timeout env \<noteq> 0 \<and> upcoming b 0 = Ack \<and> upcoming b 1 = Nak e \<longrightarrow>
       ret (mcom_fpga_probe env b) = neg_errno e \<and>
       \<not> register_called (mcom_fpga_probe env b) \<and>
       trace (bus_after (mcom_fpga_probe env b)) =
         trace b @ [BusWrite WD_UPTIME (ucast (wdt_timeout env)), BusWriteByte 0x06 0x00])
    \<and> (wdt_timeout env \<noteq> 0 \<and> upcoming b 0 = Ack \<and> upcoming b 1 = Ack \<longrightarrow>
       ret (mcom_fpga_probe env b) = register_ret env \<and>
       register_called (mcom_fpga_probe env b) \<and>
       data (mcom_fpga_probe env b) = Some \<lparr>timeout = wdt_timeout env\<rparr> \<and>
       regs (bus_after (mcom_fpga_probe env b)) WD_UPTIME = ucast (wdt_timeout env) \<and>
       unat (regs (bus_after (mcom_fpga_probe env b)) WD_UPTIME) =
         unat (wdt_timeout env) mod 2 ^ 16 \<and>
       trace (bus_after (mcom_fpga_probe env b)) =
         trace b @ [BusWrite WD_UPTIME (ucast (wdt_timeout env)), BusWriteByte 0x06 0x00])
    \<and> (wdt_timeout env \<noteq> 0 \<and> unat (wdt_timeout env) \<le> 65535 \<and>
        upcoming b 0 = Ack \<and> upcoming b 1 = Ack \<longrightarrow>
       register_called (mcom_fpga_probe env b) \<and>
       data (mcom_fpga_probe env b) =
         Some \<lparr>timeout = ucast (regs (bus_after (mcom_fpga_probe env b)) WD_UPTIME)\<rparr>)"
proof -
  let ?b1 = "advance (BusRead WD_UPTIME) b"
  let ?w = "\<lparr>timeout = ucast (regs b WD_UPTIME)\<rparr>"
  note unset = probe_unset_read [OF assms]
  note over = probe_override [OF assms]
  have u1: "upcoming ?b1 i = upcoming b (Suc i)" for i by (rule upcoming_advance)
  have two: "Suc (Suc 0) = 2" by simp
  have a: "wdt_timeout env = 0 \<and> upcoming b 0 = Nak e \<longrightarrow>
       ret (mcom_fpga_probe env b) = neg_errno e \<and>
       \<not> register_called (mcom_fpga_probe env b) \<and>
       trace (bus_after (mcom_fpga_probe env b)) = trace b @ [BusRead WD_UPTIME]"
    by (simp add: unset(1) trace_advance)
  have b: "wdt_timeout env = 0 \<and> upcoming b 0 = Ack \<and> upcoming b 1 = Nak e \<longrightarrow>
       ret (mcom_fpga_probe env b) = neg_errno e \<and>
       \<not> register_called (mcom_fpga_probe env b) \<and>
       trace (bus_after (mcom_fpga_probe env b)) =
         trace b @ [BusRead WD_UPTIME, BusWrite WD_UPTIME (regs b WD_UPTIME)]"
    by (simp add: unset(2) probe_configure_write_Nak [of ?b1 e] u1 trace_advance
        ucast_u16_s32_u16)
  have c: "wdt_timeout env = 0 \<and> upcoming b 0 = Ack \<and> upcoming b 1 = Ack \<and>
        upcoming b 2 = Nak e \<longrightarrow>
       ret (mcom_fpga_probe env b) = neg_errno e \<and>
       \<not> register_called (mcom_fpga_probe env b) \<and>
       trace (bus_after (mcom_fpga_probe env b)) =
         trace b @ [BusRead WD_UPTIME, BusWrite WD_UPTIME (regs b WD_UPTIME),
                    BusWriteByte 0x06 0x00]"
    by (simp add: unset(2) probe_configure_byte_Nak [of ?b1 e] u1 two trace_advance
        ucast_u16_s32_u16)
  have d: "wdt_timeout env = 0 \<and> upcoming b 0 = Ack \<and> upcoming b 1 = Ack \<and>
        upcoming b 2 = Ack \<longrightarrow>
       ret (mcom_fpga_probe env b) = register_ret env \<and>
       register_called (mcom_fpga_probe env b) \<and>
       data (mcom_fpga_probe env b) = Some \<lparr>timeout = ucast (regs b WD_UPTIME)\<rparr> \<and>
       regs (bus_after (mcom_fpga_probe env b)) WD_UPTIME = regs b WD_UPTIME \<and>
       data (mcom_fpga_probe env b) =
         Some \<lparr>timeout = ucast (regs (bus_after (mcom_fpga_probe env b)) WD_UPTIME)\<rparr> \<and>
       trace (bus_after (mcom_fpga_probe env b)) =
         trace b @ [BusRead WD_UPTIME, BusWrite WD_UPTIME (regs b WD_UPTIME),
                    BusWriteByte 0x06 0x00]"
    by (simp add: unset(2) probe_configure_done [of ?b1] u1 two trace_advance regs_advance
        ucast_u16_s32_u16)
  have f: "wdt_timeout env \<noteq> 0 \<and> upcoming b 0 = Nak e \<longrightarrow>
       ret (mcom_fpga_probe env b) = neg_errno e \<and>
       \<not> register_called (mcom_fpga_probe env b) \<and>
       trace (bus_after (mcom_fpga_probe env b)) =
         trace b @ [BusWrite WD_UPTIME (ucast (wdt_timeout env))]"
    by (simp add: over probe_configure_write_Nak [of b e] trace_advance)
  have g: "wdt_timeout env \<noteq> 0 \<and> upcoming b 0 = Ack \<and> upcoming b 1 = Nak e \<longrightarrow>
       ret (mcom_fpga_probe env b) = neg_errno e \<and>
       \<not> register_called (mcom_fpga_probe env b) \<and>
       trace (bus_after (mcom_fpga_probe env b)) =
         trace b @ [BusWrite WD_UPTIME (ucast (wdt_timeout env)), BusWriteByte 0x06 0x00]"
    by (simp add: over probe_configure_byte_Nak [of b e] trace_advance)
  have h: "wdt_timeout env \<noteq> 0 \<and> upcoming b 0 = Ack \<and> upcoming b 1 = Ack \<longrightarrow>
       ret (mcom_fpga_probe env b) = register_ret env \<and>
       register_called (mcom_fpga_probe env b) \<and>
       data (mcom_fpga_probe env b) = Some \<lparr>timeout = wdt_timeout env\<rparr> \<and>
       regs (bus_after (mcom_fpga_probe env b)) WD_UPTIME = ucast (wdt_timeout env) \<and>
       unat (regs (bus_after (mcom_fpga_probe env b)) WD_UPTIME) =
         unat (wdt_timeout env) mod 2 ^ 16 \<and>
       trace (bus_after (mcom_fpga_probe env b)) =
         trace b @ [BusWrite WD_UPTIME (ucast (wdt_timeout env)), BusWriteByte 0x06 0x00]"
    by (simp add: over probe_configure_done [of b] trace_advance regs_advance
        unat_ucast_u32_u16)
  have k: "wdt_timeout env \<noteq> 0 \<and> unat (wdt_timeout env) \<le> 65535 \<and>
        upcoming b 0 = Ack \<and> upcoming b 1 = Ack \<longrightarrow>
       register_called (mcom_fpga_probe env b) \<and>
       data (mcom_fpga_probe env b) =
         Some \<lparr>timeout = ucast (regs (bus_after (mcom_fpga_probe env b)) WD_UPTIME)\<rparr>"
    by (simp add: over probe_configure_done [of b] ucast_u32_u16_u32)
  from a b c d f g h k show ?thesis by blast
qed

theorem probe_adopts_uptime_and_sets_timeout_once_witness:
  "functionality (matching_env 0 0) \<and> addr (matching_env 0 0) = 0x3c
   \<and> kzalloc_ok (matching_env 0 0) \<and> wdt_timeout (matching_env 0 0) = 0
   \<and> upcoming (mock_bus WD_UPTIME 120 []) 0 = Ack
   \<and> upcoming (mock_bus WD_UPTIME 120 []) 1 = Ack
   \<and> upcoming (mock_bus WD_UPTIME 120 []) 2 = Ack
   \<and> ret (mcom_fpga_probe (matching_env 0 0) (mock_bus WD_UPTIME 120 [])) = 0
   \<and> register_called (mcom_fpga_probe (matching_env 0 0) (mock_bus WD_UPTIME 120 []))
   \<and> data (mcom_fpga_probe (matching_env 0 0) (mock_bus WD_UPTIME 120 []))
       = Some \<lparr>timeout = 120\<rparr>
   \<and> regs (bus_after (mcom_fpga_probe (matching_env 0 0) (mock_bus WD_UPTIME 120 [])))
        WD_UPTIME = 120
   \<and> trace (bus_after (mcom_fpga_probe (matching_env 0 0) (mock_bus WD_UPTIME 120 [])))
       = [BusRead WD_UPTIME, BusWrite WD_UPTIME 120, BusWriteByte 0x06 0x00]
   \<and> upcoming (mock_bus WD_UPTIME 120 [Ack, Nak EIO]) 1 = Nak EIO
   \<and> ret (mcom_fpga_probe (matching_env 0 0) (mock_bus WD_UPTIME 120 [Ack, Nak EIO]))
       = neg_errno EIO
   \<and> \<not> register_called
         (mcom_fpga_probe (matching_env 0 0) (mock_bus WD_UPTIME 120 [Ack, Nak EIO]))
   \<and> upcoming (mock_bus WD_UPTIME 120 [Nak ENXIO]) 0 = Nak ENXIO
   \<and> ret (mcom_fpga_probe (matching_env 0 0) (mock_bus WD_UPTIME 120 [Nak ENXIO]))
       = neg_errno ENXIO
   \<and> \<not> register_called
         (mcom_fpga_probe (matching_env 0 0) (mock_bus WD_UPTIME 120 [Nak ENXIO]))
   \<and> trace (bus_after
         (mcom_fpga_probe (matching_env 0 0) (mock_bus WD_UPTIME 120 [Nak ENXIO])))
       = [BusRead WD_UPTIME]
   \<and> functionality (matching_env 300 0) \<and> addr (matching_env 300 0) = 0x3c
   \<and> kzalloc_ok (matching_env 300 0) \<and> wdt_timeout (matching_env 300 0) \<noteq> 0
   \<and> unat (wdt_timeout (matching_env 300 0)) \<le> 65535
   \<and> ret (mcom_fpga_probe (matching_env 300 0) (mock_bus WD_UPTIME 120 [])) = 0
   \<and> register_called (mcom_fpga_probe (matching_env 300 0) (mock_bus WD_UPTIME 120 []))
   \<and> data (mcom_fpga_probe (matching_env 300 0) (mock_bus WD_UPTIME 120 []))
       = Some \<lparr>timeout = 300\<rparr>
   \<and> regs (bus_after (mcom_fpga_probe (matching_env 300 0) (mock_bus WD_UPTIME 120 [])))
        WD_UPTIME = 300
   \<and> trace (bus_after (mcom_fpga_probe (matching_env 300 0) (mock_bus WD_UPTIME 120 [])))
       = [BusWrite WD_UPTIME 300, BusWriteByte 0x06 0x00]"
proof -
  have e: "functionality (matching_env 0 0)" "addr (matching_env 0 0) = 0x3c"
    "kzalloc_ok (matching_env 0 0)"
    by (simp_all add: matching_env_def)
  have o: "functionality (matching_env 300 0)" "addr (matching_env 300 0) = 0x3c"
    "kzalloc_ok (matching_env 300 0)"
    by (simp_all add: matching_env_def)
  have o': "wdt_timeout (matching_env 300 0) = 300" "register_ret (matching_env 300 0) = 0"
    by (simp_all add: matching_env_def)
  have e': "wdt_timeout (matching_env 0 0) = 0" "register_ret (matching_env 0 0) = 0"
    by (simp_all add: matching_env_def)
  have u: "upcoming (mock_bus WD_UPTIME 120 []) 0 = Ack"
    "upcoming (mock_bus WD_UPTIME 120 []) 1 = Ack"
    "upcoming (mock_bus WD_UPTIME 120 []) (Suc 0) = Ack"
    "upcoming (mock_bus WD_UPTIME 120 []) 2 = Ack"
    "upcoming (mock_bus WD_UPTIME 120 [Ack, Nak EIO]) 0 = Ack"
    "upcoming (mock_bus WD_UPTIME 120 [Ack, Nak EIO]) 1 = Nak EIO"
    "upcoming (mock_bus WD_UPTIME 120 [Ack, Nak EIO]) (Suc 0) = Nak EIO"
    "upcoming (mock_bus WD_UPTIME 120 [Nak ENXIO]) 0 = Nak ENXIO"
    by (simp_all add: upcoming_def mock_bus_def idle_bus_def)
  have t: "trace (mock_bus r v s) = []" "regs (mock_bus r v s) r = v" for r v s
    by (simp_all add: mock_bus_def idle_bus_def)
  show ?thesis
    using probe_adopts_uptime_and_sets_timeout_once
        [OF e, of "mock_bus WD_UPTIME 120 []" EIO]
      probe_adopts_uptime_and_sets_timeout_once
        [OF e, of "mock_bus WD_UPTIME 120 [Ack, Nak EIO]" EIO]
      probe_adopts_uptime_and_sets_timeout_once
        [OF e, of "mock_bus WD_UPTIME 120 [Nak ENXIO]" ENXIO]
      probe_adopts_uptime_and_sets_timeout_once
        [OF o, of "mock_bus WD_UPTIME 120 []" EIO]
    by (simp add: e e' o o' u t)
qed

text \<open>
  With a module parameter above 65535 the probe registers the device although the
  cached timeout is not what the uptime register holds: the parameter 70000 leaves the
  timeout 70000 and the register 4464.
\<close>

theorem probe_override_truncation_counterexample:
  "functionality (matching_env 70000 0) \<and> addr (matching_env 70000 0) = 0x3c
   \<and> kzalloc_ok (matching_env 70000 0)
   \<and> ret (mcom_fpga_probe (matching_env 70000 0) idle_bus) = 0
   \<and> register_called (mcom_fpga_probe (matching_env 70000 0) idle_bus)
   \<and> data (mcom_fpga_probe (matching_env 70000 0) idle_bus) = Some \<lparr>timeout = 70000\<rparr>
   \<and> regs (bus_after (mcom_fpga_probe (matching_env 70000 0) idle_bus)) WD_UPTIME = 4464
   \<and> trace (bus_after (mcom_fpga_probe (matching_env 70000 0) idle_bus))
       = [BusWrite WD_UPTIME 4464, BusWriteByte 0x06 0x00]
   \<and> unat (70000 :: u32)
       \<noteq> unat (regs (bus_after (mcom_fpga_probe (matching_env 70000 0) idle_bus)) WD_UPTIME)"
  by (simp add: mcom_fpga_probe_def probe_configure_def mcom_fpga_set_timeout_def
      watchdog_init_timeout_def matching_env_def bus_eval reg_eval)

subsection \<open>Access modes of the attributes\<close>

lemmas attr_eval =
  mcom_fpga_attrs_def DEVICE_ATTR_RW_def DEVICE_ATTR_RO_def DEVICE_ATTR_WO_def
  dev_attr_status_controll_def dev_attr_disable_ubs_def dev_attr_uptime_def
  dev_attr_normaltime_def dev_attr_downtime_def dev_attr_ubstime_def
  dev_attr_perepherie_reset_def dev_attr_windowtime_def dev_attr_temperature_def
  dev_attr_mvb_status_def dev_attr_mvb_ctrl_def

lemmas handler_eval =
  status_controll_show_def status_controll_store_def disable_ubs_show_def
  disable_ubs_store_def uptime_show_def uptime_store_def normaltime_show_def
  normaltime_store_def downtime_show_def downtime_store_def ubstime_show_def
  ubstime_store_def perepherie_reset_store_def windowtime_show_def windowtime_store_def
  temperature_show_def mvb_status_show_def mvb_ctrl_show_def mvb_ctrl_store_def
  show_word_def mcom_fpga_store_word_def

text \<open>
  Claim C7. The temperature and MVB-status attributes have no store handler, and a write
  to them is rejected with the bus untouched; the peripheral-reset attribute has no show
  handler, and a read of it is rejected with the bus untouched. The other eight
  attributes have both handlers. On a bus that acknowledges, a read or a write of an
  attribute that has the handler is one transaction on the attribute's own register.
\<close>

theorem attribute_access_modes:
  "writeRegister dev_attr_temperature buf count b = (ProtocolViolation, b)
   \<and> writeRegister dev_attr_mvb_status buf count b = (ProtocolViolation, b)
   \<and> readRegister dev_attr_perepherie_reset b = (ProtocolViolation, b)
   \<and> map (\<lambda>a. (attr_name a, attr_show a \<noteq> None, attr_store a \<noteq> None)) mcom_fpga_attrs =
       [(''status_controll'', True, True), (''disable_ubs'', True, True),
        (''uptime'', True, True), (''normaltime'', True, True),
        (''downtime'', True, True), (''ubstime'', True, True),
        (''perepherie_reset'', False, True), (''windowtime'', True, True),
        (''temperature'', True, False), (''mvb_status'', True, False),
        (''mvb_ctrl'', True, True)]
   \<and> map (\<lambda>a. (attr_name a, trace (snd (readRegister a idle_bus)))) mcom_fpga_attrs =
       [(''status_controll'', [BusRead WD_STATUS_CONTROLL]),
        (''disable_ubs'', [BusRead WD_DISABLE_UBS]),
        (''uptime'', [BusRead WD_UPTIME]),
        (''normaltime'', [BusRead WD_NORMALTIME]),
        (''downtime'', [BusRead WD_DOWNTIME]),
        (''ubstime'', [BusRead WD_UBSTIME]),
        (''perepherie_reset'', []),
        (''windowtime'', [BusRead WD_WINDOWTIME]),
        (''temperature'', [BusRead WD_TEMP]),
        (''mvb_status'', [BusRead WD_MVB_STATUS]),
        (''mvb_ctrl'', [BusRead WD_MVB_CTRL])]
   \<and> map (\<lambda>a. (attr_name a, trace (snd (writeRegister a (0, 0x1234) 4 idle_bus))))
       mcom_fpga_attrs =
       [(''status_controll'', [BusWrite WD_STATUS_CONTROLL 0x1234]),
        (''disable_ubs'', [BusWrite WD_DISABLE_UBS 0x1234]),
        (''uptime'', [BusWrite WD_UPTIME 0x1234]),
        (''normaltime'', [BusWrite WD_NORMALTIME 0x1234]),
        (''downtime'', [BusWrite WD_DOWNTIME 0x1234]),
        (''ubstime'', [BusWrite WD_UBSTIME 0x1234]),
        (''perepherie_reset'', [BusWrite WD_PEREPHERIE_RESET 0x1234]),
        (''windowtime'', [BusWrite WD_WINDOWTIME 0x1234]),
        (''temperature'', []),
        (''mvb_status'', []),
        (''mvb_ctrl'', [BusWrite WD_MVB_CTRL 0x1234])]"
proof -
  have rej: "writeRegister dev_attr_temperature buf count b = (ProtocolViolation, b)"
    "writeRegister dev_attr_mvb_status buf count b = (ProtocolViolation, b)"
    "readRegister dev_attr_perepherie_reset b = (ProtocolViolation, b)"
    by (simp_all add: writeRegister_def readRegister_def dev_attr_temperature_def
        dev_attr_mvb_status_def dev_attr_perepherie_reset_def DEVICE_ATTR_RO_def
        DEVICE_ATTR_WO_def)
  have tab: "map (\<lambda>a. (attr_name a, attr_show a \<noteq> None, attr_store a \<noteq> None)) mcom_fpga_attrs =
       [(''status_controll'', True, True), (''disable_ubs'', True, True),
        (''uptime'', True, True), (''normaltime'', True, True),
        (''downtime'', True, True), (''ubstime'', True, True),
        (''perepherie_reset'', False, True), (''windowtime'', True, True),
        (''temperature'', True, False), (''mvb_status'', True, False),
        (''mvb_ctrl'', True, True)]"
    by (simp add: attr_eval)
  have rd: "map (\<lambda>a. (attr_name a, trace (snd (readRegister a idle_bus)))) mcom_fpga_attrs =
       [(''status_controll'', [BusRead WD_STATUS_CONTROLL]),
        (''disable_ubs'', [BusRead WD_DISABLE_UBS]),
        (''uptime'', [BusRead WD_UPTIME]),
        (''normaltime'', [BusRead WD_NORMALTIME]),
        (''downtime'', [BusRead WD_DOWNTIME]),
        (''ubstime'', [BusRead WD_UBSTIME]),
        (''perepherie_reset'', []),
        (''windowtime'', [BusRead WD_WINDOWTIME]),
        (''temperature'', [BusRead WD_TEMP]),
        (''mvb_status'', [BusRead WD_MVB_STATUS]),
        (''mvb_ctrl'', [BusRead WD_MVB_CTRL])]"
    by (simp add: attr_eval handler_eval readRegister_def bus_eval word_sless_alt)
  have wr: "map (\<lambda>a. (attr_name a, trace (snd (writeRegister a (0, 0x1234) 4 idle_bus))))
       mcom_fpga_attrs =
       [(''status_controll'', [BusWrite WD_STATUS_CONTROLL 0x1234]),
        (''disable_ubs'', [BusWrite WD_DISABLE_UBS 0x1234]),
        (''uptime'', [BusWrite WD_UPTIME 0x1234]),
        (''normaltime'', [BusWrite WD_NORMALTIME 0x1234]),
        (''downtime'', [BusWrite WD_DOWNTIME 0x1234]),
        (''ubstime'', [BusWrite WD_UBSTIME 0x1234]),
        (''perepherie_reset'', [BusWrite WD_PEREPHERIE_RESET 0x1234]),
        (''windowtime'', [BusWrite WD_WINDOWTIME 0x1234]),
        (''temperature'', []),
        (''mvb_status'', []),
        (''mvb_ctrl'', [BusWrite WD_MVB_CTRL 0x1234])]"
    by (simp add: attr_eval handler_eval writeRegister_def bus_eval)
  from rej tab rd wr show ?thesis by simp
qed

end
